theory Spec2Isabelle
  imports Main "HOL-Library.AList" "HOL-Library.List_Lexorder" "HOL-Library.Char_ord"
begin

section \<open>The activity store of \<open>src/app.py\<close>\<close>

text \<open>
  The service keeps two SQL tables. A row of \<open>activities\<close> is the tuple
  \<open>(name, description, schedule, max_participants)\<close>, a row of \<open>participants\<close>
  the tuple \<open>(activity_name, email)\<close>, as the cursor of the source delivers them.
  A table is the sequence of its rows in the order in which they were inserted:
  \<open>INSERT\<close> adds a row at the end, and a scan of the whole table (the
  \<open>SELECT\<close> over \<open>activities\<close> in \<open>build_activity_dict\<close>) yields the rows in
  that order. The source has no \<open>ORDER BY\<close>; the order of a result is the one
  in which SQLite, the engine the source opens, walks the table or the index
  that answers the query.
\<close>

type_synonym activity_row = "string \<times> string \<times> string \<times> int"
type_synonym participant_row = "string \<times> string"

record db =
  activities :: "activity_row list"
  participants :: "participant_row list"

text \<open>
  What a call can raise: the \<open>HTTPException(status_code, detail)\<close> of the
  handlers, and the \<open>sqlite3.IntegrityError\<close> of an \<open>INSERT\<close> that repeats a
  primary key. A call returns its result (or the exception) together with the
  committed store; a call that raises has committed nothing.
\<close>

datatype exn = HTTPException int string | IntegrityError

text \<open>The values of \<open>INITIAL_ACTIVITIES\<close> and of the listing: a dictionary with
  the four keys \<open>description\<close>, \<open>schedule\<close>, \<open>max_participants\<close> and
  \<open>participants\<close> (here \<open>participant_emails\<close>).\<close>

record activity_info =
  description :: string
  schedule :: string
  max_participants :: int
  participant_emails :: "string list"

definition INITIAL_ACTIVITIES :: "(string \<times> activity_info) list" where
  "INITIAL_ACTIVITIES =
   [(''Chess Club'',
     \<lparr>description = ''Learn strategies and compete in chess tournaments'',
      schedule = ''Fridays, 3:30 PM - 5:00 PM'',
      max_participants = 12,
      participant_emails = [''michael@mergington.edu'', ''daniel@mergington.edu'']\<rparr>),
    (''Programming Class'',
     \<lparr>description = ''Learn programming fundamentals and build software projects'',
      schedule = ''Tuesdays and Thursdays, 3:30 PM - 4:30 PM'',
      max_participants = 20,
      participant_emails = [''emma@mergington.edu'', ''sophia@mergington.edu'']\<rparr>),
    (''Gym Class'',
     \<lparr>description = ''Physical education and sports activities'',
      schedule = ''Mondays, Wednesdays, Fridays, 2:00 PM - 3:00 PM'',
      max_participants = 30,
      participant_emails = [''john@mergington.edu'', ''olivia@mergington.edu'']\<rparr>),
    (''Soccer Team'',
     \<lparr>description = ''Join the school soccer team and compete in matches'',
      schedule = ''Tuesdays and Thursdays, 4:00 PM - 5:30 PM'',
      max_participants = 22,
      participant_emails = [''liam@mergington.edu'', ''noah@mergington.edu'']\<rparr>),
    (''Basketball Team'',
     \<lparr>description = ''Practice and play basketball with the school team'',
      schedule = ''Wednesdays and Fridays, 3:30 PM - 5:00 PM'',
      max_participants = 15,
      participant_emails = [''ava@mergington.edu'', ''mia@mergington.edu'']\<rparr>),
    (''Art Club'',
     \<lparr>description = ''Explore your creativity through painting and drawing'',
      schedule = ''Thursdays, 3:30 PM - 5:00 PM'',
      max_participants = 15,
      participant_emails = [''amelia@mergington.edu'', ''harper@mergington.edu'']\<rparr>),
    (''Drama Club'',
     \<lparr>description = ''Act, direct, and produce plays and performances'',
      schedule = ''Mondays and Wednesdays, 4:00 PM - 5:30 PM'',
      max_participants = 20,
      participant_emails = [''ella@mergington.edu'', ''scarlett@mergington.edu'']\<rparr>),
    (''Math Club'',
     \<lparr>description = ''Solve challenging problems and participate in math competitions'',
      schedule = ''Tuesdays, 3:30 PM - 4:30 PM'',
      max_participants = 10,
      participant_emails = [''james@mergington.edu'', ''benjamin@mergington.edu'']\<rparr>),
    (''Debate Team'',
     \<lparr>description = ''Develop public speaking and argumentation skills'',
      schedule = ''Fridays, 4:00 PM - 5:30 PM'',
      max_participants = 12,
      participant_emails = [''charlotte@mergington.edu'', ''henry@mergington.edu'']\<rparr>)]"

subsection \<open>The SQL statements\<close>

text \<open>\<open>SELECT COUNT(*) FROM activities\<close>\<close>

definition count_activities :: "db \<Rightarrow> nat" where
  "count_activities s = length (activities s)"

text \<open>\<open>SELECT max_participants FROM activities WHERE name = ?\<close> followed by
  \<open>fetchone()\<close>: the first matching row, or \<open>None\<close>.\<close>

definition select_max_participants :: "db \<Rightarrow> string \<Rightarrow> int option" where
  "select_max_participants s activity_name =
     (case filter (\<lambda>(name, d, sc, m). name = activity_name) (activities s) of
        [] \<Rightarrow> None
      | (name, d, sc, m) # rest \<Rightarrow> Some m)"

text \<open>\<open>SELECT 1 FROM activities WHERE name = ?\<close> followed by \<open>fetchone()\<close>,
  compared with \<open>None\<close>.\<close>

definition activity_exists :: "db \<Rightarrow> string \<Rightarrow> bool" where
  "activity_exists s activity_name =
     (filter (\<lambda>(name, d, sc, m). name = activity_name) (activities s) \<noteq> [])"

text \<open>\<open>SELECT 1 FROM participants WHERE activity_name = ? AND email = ?\<close>
  followed by \<open>fetchone()\<close>, compared with \<open>None\<close>.\<close>

definition participant_exists :: "db \<Rightarrow> string \<Rightarrow> string \<Rightarrow> bool" where
  "participant_exists s activity_name email =
     (filter (\<lambda>(a, e). a = activity_name \<and> e = email) (participants s) \<noteq> [])"

text \<open>\<open>SELECT COUNT(*) FROM participants WHERE activity_name = ?\<close>\<close>

definition count_participants :: "db \<Rightarrow> string \<Rightarrow> nat" where
  "count_participants s activity_name =
     length (filter (\<lambda>(a, e). a = activity_name) (participants s))"

text \<open>
  \<open>SELECT email FROM participants WHERE activity_name = ?\<close> followed by
  \<open>[r[0] for r in cur.fetchall()]\<close>. Both columns of the query belong to
  \<open>PRIMARY KEY(activity_name, email)\<close>, so the engine answers it from the index
  of that key and the emails of the activity come in the order of the index:
  ascending, compared byte by byte (a string before its extensions), and not in
  the order of insertion. The list comprehension keeps the order of the cursor.
\<close>

definition select_emails :: "db \<Rightarrow> string \<Rightarrow> string list" where
  "select_emails s activity_name =
     sort (map snd (filter (\<lambda>(a, e). a = activity_name) (participants s)))"

text \<open>\<open>INSERT INTO activities(name, description, schedule, max_participants)\<close>:
  \<open>name\<close> is the primary key, a second row with the same name is refused.\<close>

definition insert_activity :: "db \<Rightarrow> activity_row \<Rightarrow> exn + db" where
  "insert_activity s row =
     (if fst row \<in> set (map fst (activities s)) then Inl IntegrityError
      else Inr (s\<lparr>activities := activities s @ [row]\<rparr>))"

text \<open>\<open>INSERT INTO participants(activity_name, email)\<close>: the pair is the
  primary key. At both places where the source inserts a registration the
  activity row it refers to is in the table, so the foreign key cannot refuse
  the row.\<close>

definition insert_participant :: "db \<Rightarrow> participant_row \<Rightarrow> exn + db" where
  "insert_participant s row =
     (if row \<in> set (participants s) then Inl IntegrityError
      else Inr (s\<lparr>participants := participants s @ [row]\<rparr>))"

text \<open>\<open>DELETE FROM participants WHERE activity_name = ? AND email = ?\<close>\<close>

definition delete_participant :: "db \<Rightarrow> string \<Rightarrow> string \<Rightarrow> db" where
  "delete_participant s activity_name email =
     s\<lparr>participants :=
         filter (\<lambda>(a, e). \<not> (a = activity_name \<and> e = email)) (participants s)\<rparr>"

subsection \<open>\<open>init_db\<close>\<close>

text \<open>The inner loop \<open>for p in data["participants"]\<close>.\<close>

fun insert_roster :: "string \<Rightarrow> string list \<Rightarrow> db \<Rightarrow> exn + db" where
  "insert_roster name [] s = Inr s"
| "insert_roster name (p # ps) s =
     (case insert_participant s (name, p) of
        Inl e \<Rightarrow> Inl e
      | Inr s' \<Rightarrow> insert_roster name ps s')"

text \<open>The outer loop \<open>for name, data in INITIAL_ACTIVITIES.items()\<close>.\<close>

fun seed :: "(string \<times> activity_info) list \<Rightarrow> db \<Rightarrow> exn + db" where
  "seed [] s = Inr s"
| "seed ((name, data) # rest) s =
     (case insert_activity s
             (name, description data, schedule data, max_participants data) of
        Inl e \<Rightarrow> Inl e
      | Inr s1 \<Rightarrow>
          (case insert_roster name (participant_emails data) s1 of
             Inl e \<Rightarrow> Inl e
           | Inr s2 \<Rightarrow> seed rest s2))"

text \<open>
  \<open>init_db\<close>: both tables exist afterwards (\<open>CREATE TABLE IF NOT EXISTS\<close>; a
  missing table is an empty one here), and the seed is inserted when
  \<open>SELECT COUNT(*) FROM activities\<close> is 0. \<open>conn.commit()\<close> is reached only
  when no \<open>INSERT\<close> raised; otherwise the store stays as it was.
\<close>

definition init_db :: "db \<Rightarrow> (exn + unit) \<times> db" where
  "init_db s =
     (if count_activities s = 0 then
        (case seed INITIAL_ACTIVITIES s of
           Inl e \<Rightarrow> (Inl e, s)
         | Inr s' \<Rightarrow> (Inr (), s'))
      else (Inr (), s))"

subsection \<open>The handlers\<close>

text \<open>The loop body of \<open>build_activity_dict\<close>: \<open>activities[name] = {...}\<close> on a
  Python dictionary, which keeps the position of a key that is already there.\<close>

definition add_activity ::
  "db \<Rightarrow> activity_row \<Rightarrow> (string \<times> activity_info) list \<Rightarrow> (string \<times> activity_info) list" where
  "add_activity s row acts =
     (case row of (name, d, sc, m) \<Rightarrow>
        AList.update name
          \<lparr>description = d, schedule = sc, max_participants = m,
           participant_emails = select_emails s name\<rparr> acts)"

definition build_activity_dict :: "db \<Rightarrow> (string \<times> activity_info) list" where
  "build_activity_dict s = fold (add_activity s) (activities s) []"

text \<open>\<open>GET /activities\<close>: no statement of it writes.\<close>

definition get_activities :: "db \<Rightarrow> (exn + (string \<times> activity_info) list) \<times> db" where
  "get_activities s = (Inr (build_activity_dict s), s)"

text \<open>\<open>POST /activities/{activity_name}/signup\<close>. The answer is the dictionary
  \<open>{"message": ...}\<close>.\<close>

definition signup_for_activity ::
  "db \<Rightarrow> string \<Rightarrow> string \<Rightarrow> (exn + (string \<times> string) list) \<times> db" where
  "signup_for_activity s activity_name email =
     (case select_max_participants s activity_name of
        None \<Rightarrow> (Inl (HTTPException 404 ''Activity not found''), s)
      | Some max_p \<Rightarrow>
          if participant_exists s activity_name email
          then (Inl (HTTPException 400 ''Student is already signed up''), s)
          else if int (count_participants s activity_name) \<ge> max_p
          then (Inl (HTTPException 400 ''Activity is full''), s)
          else (case insert_participant s (activity_name, email) of
                  Inl e \<Rightarrow> (Inl e, s)
                | Inr s' \<Rightarrow>
                    (Inr [(''message'',
                           ''Signed up '' @ email @ '' for '' @ activity_name)], s')))"

text \<open>\<open>DELETE /activities/{activity_name}/unregister\<close>\<close>

definition unregister_from_activity ::
  "db \<Rightarrow> string \<Rightarrow> string \<Rightarrow> (exn + (string \<times> string) list) \<times> db" where
  "unregister_from_activity s activity_name email =
     (if \<not> activity_exists s activity_name
      then (Inl (HTTPException 404 ''Activity not found''), s)
      else if \<not> participant_exists s activity_name email
      then (Inl (HTTPException 400 ''Student is not signed up for this activity''), s)
      else (Inr [(''message'',
                  ''Unregistered '' @ email @ '' from '' @ activity_name)],
            delete_participant s activity_name email))"

text \<open>The error kinds of the specification, as the handlers raise them.\<close>

definition NotFound :: exn where
  "NotFound = HTTPException 404 ''Activity not found''"

definition AlreadyRegistered :: exn where
  "AlreadyRegistered = HTTPException 400 ''Student is already signed up''"

definition Full :: exn where
  "Full = HTTPException 400 ''Activity is full''"

definition NotRegistered :: exn where
  "NotRegistered = HTTPException 400 ''Student is not signed up for this activity''"

subsection \<open>The constraints the schema declares\<close>

text \<open>\<open>name TEXT PRIMARY KEY\<close>\<close>

definition pk_activities :: "db \<Rightarrow> bool" where
  "pk_activities s = distinct (map fst (activities s))"

text \<open>\<open>PRIMARY KEY(activity_name, email)\<close>: invariant I1.\<close>

definition pk_participants :: "db \<Rightarrow> bool" where
  "pk_participants s = distinct (participants s)"


text \<open>Invariant I2: no activity has more registrations than its
  \<open>max_participants\<close>.\<close>

definition within_capacity :: "db \<Rightarrow> bool" where
  "within_capacity s =
     (\<forall>row \<in> set (activities s).
        int (count_participants s (fst row)) \<le> snd (snd (snd row)))"

text \<open>The store of a first start: \<open>init_db\<close> run on no rows at all.\<close>

definition empty_db :: db where
  "empty_db = \<lparr>activities = [], participants = []\<rparr>"

text \<open>The states the service can reach from there by \<open>signup\<close> and
  \<open>unregister\<close> requests handled one after the other.\<close>

inductive reachable :: "db \<Rightarrow> bool" where
  start: "reachable (snd (init_db empty_db))"
| signup: "reachable s \<Longrightarrow> reachable (snd (signup_for_activity s activity_name email))"
| unregister: "reachable s \<Longrightarrow> reachable (snd (unregister_from_activity s activity_name email))"

section \<open>The issue script \<open>create_issues.py\<close>\<close>

text \<open>
  A record of \<open>issues_data.json\<close>, and the \<open>data\<close> dictionary that
  \<open>create_github_issue\<close> posts: both have the keys \<open>title\<close>, \<open>body\<close> and
  \<open>labels\<close>.
\<close>

record issue_data =
  title :: string
  body :: string
  labels :: "string list"

text \<open>A decoded JSON value, as \<open>response.json()\<close> returns it; \<open>JNull\<close> is
  Python's \<open>None\<close>. Numbers are the integers.\<close>

datatype json_value =
  JNull | JBool bool | JInt int | JStr string
  | JList "json_value list" | JObj "(string \<times> json_value) list"

text \<open>The truth value Python gives a value in \<open>if result:\<close>.\<close>

fun truthy :: "json_value \<Rightarrow> bool" where
  "truthy JNull = False"
| "truthy (JBool b) = b"
| "truthy (JInt n) = (n \<noteq> 0)"
| "truthy (JStr s) = (s \<noteq> [])"
| "truthy (JList xs) = (xs \<noteq> [])"
| "truthy (JObj kvs) = (kvs \<noteq> [])"

text \<open>\<open>value[key]\<close> with a string key: a dictionary without the key raises
  \<open>KeyError\<close>, every other value raises \<open>TypeError\<close>.\<close>

fun getitem :: "json_value \<Rightarrow> string \<Rightarrow> string + json_value" where
  "getitem (JObj kvs) key =
     (case map_of kvs key of None \<Rightarrow> Inl ''KeyError'' | Some v \<Rightarrow> Inr v)"
| "getitem v key = Inl ''TypeError''"

record request =
  url :: string
  headers :: "(string \<times> string) list"
  data :: issue_data

text \<open>A response of \<open>requests\<close>: \<open>status_code\<close>, \<open>text\<close> (here \<open>resp_text\<close>) and the
  value of \<open>json()\<close>.\<close>

record response =
  status_code :: int
  resp_text :: string
  json :: json_value

text \<open>
  The remote API is a parameter \<open>post\<close>: from its state and a request it gives
  a response and its next state. Every call goes through \<open>requests_post\<close>, which
  also appends the request to the \<open>trace\<close> of the calls made. Exceptions raised
  inside the \<open>requests\<close> library (no connection, a body that is not JSON) are
  not part of the model.
\<close>

record 'w net =
  trace :: "request list"
  remote :: 'w

definition requests_post ::
  "('w \<Rightarrow> request \<Rightarrow> response \<times> 'w) \<Rightarrow> 'w net \<Rightarrow> request \<Rightarrow> response \<times> 'w net" where
  "requests_post post n req =
     (case post (remote n) req of
        (resp, w') \<Rightarrow> (resp, \<lparr>trace = trace n @ [req], remote = w'\<rparr>))"

text \<open>
  Standard output, one value for each \<open>print\<close> statement of the source, with
  the values the statement interpolates:
  \<^item> \<open>ErrFileNotFound p\<close>: \<open>"Error: {p} not found"\<close>;
  \<^item> \<open>ErrInvalidJSON p e\<close>: \<open>"Error: Invalid JSON in {p}: {e}"\<close>;
  \<^item> \<open>ErrCreating t c\<close>: \<open>"Error creating issue '{t}': {c}"\<close>;
  \<^item> \<open>ResponseText x\<close>: \<open>"Response: {x}"\<close>;
  \<^item> \<open>ErrTokenRequired\<close>: \<open>"Error: GitHub token is required. Provide via --token or GITHUB_TOKEN env var"\<close>;
  \<^item> \<open>ErrRepoRequired\<close>: \<open>"Error: Repository is required. Provide via --repo or GITHUB_REPOSITORY env var"\<close>;
  \<^item> \<open>LoadedIssues n p\<close>: \<open>"Loaded {n} issues from {p}"\<close>;
  \<^item> \<open>DryRunHeader\<close>: \<open>"\nDRY RUN - Issues that would be created:"\<close>;
  \<^item> \<open>Rule\<close>: \<open>"=" * 80\<close>, and \<open>NlRule\<close>: \<open>"\n" + "=" * 80\<close>;
  \<^item> \<open>DryTitle i t\<close>: \<open>"\n{i}. {t}"\<close>; \<open>DryLabels l\<close>: \<open>"   Labels: {l}"\<close>;
    \<open>DryBody b\<close>: \<open>"   Body preview: {b}..."\<close>;
  \<^item> \<open>DryRunFooter\<close>: \<open>"\nTo create these issues, run without --dry-run flag"\<close>;
  \<^item> \<open>CreatingIn r\<close>: \<open>"\nCreating issues in repository: {r}"\<close>;
  \<^item> \<open>Progress i n t\<close>: \<open>"\n[{i}/{n}] Creating: {t}"\<close>;
  \<^item> \<open>Created u\<close>: the line \<open>"Created: {u}"\<close> after the check mark;
  \<^item> \<open>FailedToCreate\<close>: the line \<open>"Failed to create issue"\<close> after the cross;
  \<^item> \<open>SummaryHeader\<close>: \<open>"\nSummary:"\<close>; \<open>TotalIssues n\<close>: \<open>"  Total issues: {n}"\<close>;
    \<open>SuccessfullyCreated n\<close>: \<open>"  Successfully created: {n}"\<close>;
    \<open>FailedCount n\<close>: \<open>"  Failed: {n}"\<close>;
  \<^item> \<open>CreatedHeader\<close>: \<open>"Created issues:"\<close> after the check mark;
    \<open>CreatedItem n t\<close>: \<open>"  - #{n}: {t}"\<close>; \<open>CreatedUrl u\<close>: \<open>"    {u}"\<close>;
  \<^item> \<open>FailedHeader\<close>: \<open>"Failed issues:"\<close> after the cross;
    \<open>FailedItem t\<close>: \<open>"  - {t}"\<close>;
  \<^item> \<open>AllCreated\<close>: \<open>"All issues created successfully!"\<close> after the check mark.
\<close>

datatype line =
  ErrFileNotFound string
  | ErrInvalidJSON string string
  | ErrCreating string int
  | ResponseText string
  | ErrTokenRequired
  | ErrRepoRequired
  | LoadedIssues nat string
  | DryRunHeader
  | Rule
  | NlRule
  | DryTitle nat string
  | DryLabels string
  | DryBody string
  | DryRunFooter
  | CreatingIn string
  | Progress nat nat string
  | Created json_value
  | FailedToCreate
  | SummaryHeader
  | TotalIssues nat
  | SuccessfullyCreated nat
  | FailedCount nat
  | CreatedHeader
  | CreatedItem json_value json_value
  | CreatedUrl json_value
  | FailedHeader
  | FailedItem string
  | AllCreated

text \<open>What opening and parsing the file gives: \<open>FileNotFoundError\<close>,
  \<open>json.JSONDecodeError\<close> with its message, or the list of records.\<close>

datatype file_result = NoFile | BadJSON string | Content "issue_data list"

text \<open>How the process ends: \<open>sys.exit(n)\<close>, the end of \<open>main\<close>, or an
  exception nobody catches.\<close>

datatype status = Exit int | Return | Uncaught string

fun exit_code :: "status \<Rightarrow> int" where
  "exit_code (Exit n) = n"
| "exit_code Return = 0"
| "exit_code (Uncaught e) = 1"

text \<open>The parsed command line (\<open>file_arg\<close> is \<open>args.file\<close>); \<open>token\<close> and \<open>repo\<close> default to the
  environment variables and are \<open>None\<close> when neither is given.\<close>

record args =
  token :: "string option"
  repo :: "string option"
  dry_run :: bool
  file_arg :: string

text \<open>\<open>not x\<close> for an optional string is true for \<open>None\<close> and for \<open>""\<close>.\<close>

fun given :: "string option \<Rightarrow> bool" where
  "given None = False"
| "given (Some v) = (v \<noteq> [])"

text \<open>An optional string inside an f-string.\<close>

fun fmt :: "string option \<Rightarrow> string" where
  "fmt None = ''None''"
| "fmt (Some v) = v"

text \<open>\<open>sep.join(xs)\<close>\<close>

fun join :: "string \<Rightarrow> string list \<Rightarrow> string" where
  "join sep [] = []"
| "join sep [x] = x"
| "join sep (x # y # ys) = x @ sep @ join sep (y # ys)"

text \<open>\<open>load_issues_data\<close>: \<open>Inl\<close> is the line printed before \<open>sys.exit(1)\<close>.\<close>

definition load_issues_data :: "(string \<Rightarrow> file_result) \<Rightarrow> string \<Rightarrow> line list + issue_data list" where
  "load_issues_data fs file_path =
     (case fs file_path of
        NoFile \<Rightarrow> Inl [ErrFileNotFound file_path]
      | BadJSON e \<Rightarrow> Inl [ErrInvalidJSON file_path e]
      | Content issues \<Rightarrow> Inr issues)"

definition mk_request :: "string option \<Rightarrow> string option \<Rightarrow> issue_data \<Rightarrow> request" where
  "mk_request tok rp issue =
     \<lparr>url = ''https://api.github.com/repos/'' @ fmt rp @ ''/issues'',
      headers = [(''Authorization'', ''token '' @ fmt tok),
                 (''Accept'', ''application/vnd.github.v3+json''),
                 (''Content-Type'', ''application/json'')],
      data = \<lparr>title = title issue, body = body issue, labels = labels issue\<rparr>\<rparr>"

text \<open>\<open>create_github_issue\<close>: the value returned, the lines printed and the
  network afterwards.\<close>

definition create_github_issue ::
  "('w \<Rightarrow> request \<Rightarrow> response \<times> 'w) \<Rightarrow> 'w net \<Rightarrow> string option \<Rightarrow> string option \<Rightarrow> issue_data
     \<Rightarrow> json_value \<times> line list \<times> 'w net" where
  "create_github_issue post n tok rp issue =
     (case requests_post post n (mk_request tok rp issue) of
        (resp, n') \<Rightarrow>
          if status_code resp = 201 then (json resp, [], n')
          else (JNull, [ErrCreating (title issue) (status_code resp), ResponseText (resp_text resp)], n'))"

text \<open>The variables of the loop of \<open>main\<close>.\<close>

record 'w loop_state =
  created_issues :: "json_value list"
  failed_issues :: "string list"
  out :: "line list"
  network :: "'w net"

text \<open>The loop \<open>for i, issue_data in enumerate(issues, 1)\<close>; \<open>len_issues\<close> is
  \<open>len(issues)\<close>. The result is the exception that left the loop, if any.\<close>

fun create_loop ::
  "('w \<Rightarrow> request \<Rightarrow> response \<times> 'w) \<Rightarrow> string option \<Rightarrow> string option \<Rightarrow> nat \<Rightarrow> nat
     \<Rightarrow> issue_data list \<Rightarrow> 'w loop_state \<Rightarrow> string option \<times> 'w loop_state" where
  "create_loop post tok rp len_issues i [] st = (None, st)"
| "create_loop post tok rp len_issues i (issue # rest) st =
     (case create_github_issue post (network st) tok rp issue of
        (result, printed, n') \<Rightarrow>
          let st1 = st\<lparr>out := out st @ [Progress i len_issues (title issue)] @ printed,
                      network := n'\<rparr>
          in if truthy result then
               (let st2 = st1\<lparr>created_issues := created_issues st1 @ [result]\<rparr>
                in case getitem result ''html_url'' of
                     Inl e \<Rightarrow> (Some e, st2)
                   | Inr u \<Rightarrow>
                       create_loop post tok rp len_issues (Suc i) rest
                         (st2\<lparr>out := out st2 @ [Created u]\<rparr>))
             else
               create_loop post tok rp len_issues (Suc i) rest
                 (st1\<lparr>failed_issues := failed_issues st1 @ [title issue],
                      out := out st1 @ [FailedToCreate]\<rparr>))"

text \<open>The loop of the preview.\<close>

fun dry_run_lines :: "nat \<Rightarrow> issue_data list \<Rightarrow> line list" where
  "dry_run_lines i [] = []"
| "dry_run_lines i (issue # rest) =
     [DryTitle i (title issue), DryLabels (join '', '' (labels issue)),
      DryBody (take 100 (body issue))] @ dry_run_lines (Suc i) rest"

text \<open>The loop \<open>for issue in created_issues\<close> of the summary.\<close>

fun created_lines :: "json_value list \<Rightarrow> line list \<Rightarrow> string option \<times> line list" where
  "created_lines [] acc = (None, acc)"
| "created_lines (issue # rest) acc =
     (case getitem issue ''number'' of
        Inl e \<Rightarrow> (Some e, acc)
      | Inr n \<Rightarrow>
          (case getitem issue ''title'' of
             Inl e \<Rightarrow> (Some e, acc)
           | Inr t \<Rightarrow>
               (case getitem issue ''html_url'' of
                  Inl e \<Rightarrow> (Some e, acc @ [CreatedItem n t])
                | Inr u \<Rightarrow> created_lines rest (acc @ [CreatedItem n t, CreatedUrl u]))))"

record 'w run =
  printed :: "line list"
  ended :: status
  net_after :: "'w net"

text \<open>\<open>main\<close>, from the parsed arguments, the file system \<open>fs\<close> and the
  remote API \<open>post\<close> in state \<open>w\<close>.\<close>

definition main ::
  "('w \<Rightarrow> request \<Rightarrow> response \<times> 'w) \<Rightarrow> 'w \<Rightarrow> (string \<Rightarrow> file_result) \<Rightarrow> args \<Rightarrow> 'w run" where
  "main post w fs a =
     (let n0 = \<lparr>trace = [], remote = w\<rparr> in
      if \<not> dry_run a \<and> \<not> given (token a)
      then \<lparr>printed = [ErrTokenRequired], ended = Exit 1, net_after = n0\<rparr>
      else if \<not> given (repo a)
      then \<lparr>printed = [ErrRepoRequired], ended = Exit 1, net_after = n0\<rparr>
      else
        (case load_issues_data fs (file_arg a) of
           Inl err \<Rightarrow> \<lparr>printed = err, ended = Exit 1, net_after = n0\<rparr>
         | Inr issues \<Rightarrow>
             let o1 = [LoadedIssues (length issues) (file_arg a)] in
             if dry_run a
             then \<lparr>printed = o1 @ [DryRunHeader, Rule] @ dry_run_lines 1 issues
                              @ [NlRule, DryRunFooter],
                   ended = Return, net_after = n0\<rparr>
             else
               (case create_loop post (token a) (repo a) (length issues) 1 issues
                       \<lparr>created_issues = [], failed_issues = [],
                        out = o1 @ [CreatingIn (fmt (repo a)), Rule], network = n0\<rparr> of
                  (Some e, st) \<Rightarrow>
                    \<lparr>printed = out st, ended = Uncaught e, net_after = network st\<rparr>
                | (None, st) \<Rightarrow>
                    let o2 = out st @ [NlRule, SummaryHeader, TotalIssues (length issues),
                                       SuccessfullyCreated (length (created_issues st)),
                                       FailedCount (length (failed_issues st))]
                    in
                    (case (if created_issues st \<noteq> []
                           then created_lines (created_issues st) (o2 @ [CreatedHeader])
                           else (None, o2)) of
                       (Some e, o3) \<Rightarrow>
                         \<lparr>printed = o3, ended = Uncaught e, net_after = network st\<rparr>
                     | (None, o3) \<Rightarrow>
                         if failed_issues st \<noteq> []
                         then \<lparr>printed = o3 @ [FailedHeader] @ map FailedItem (failed_issues st),
                               ended = Exit 1, net_after = network st\<rparr>
                         else \<lparr>printed = o3 @ [AllCreated], ended = Return,
                               net_after = network st\<rparr>))))"

text \<open>The responses the remote API gives to a sequence of requests made one
  after the other, starting in state \<open>w\<close>.\<close>

fun responses :: "('w \<Rightarrow> request \<Rightarrow> response \<times> 'w) \<Rightarrow> 'w \<Rightarrow> request list \<Rightarrow> response list" where
  "responses post w [] = []"
| "responses post w (req # reqs) =
     (case post w req of (resp, w') \<Rightarrow> resp # responses post w' reqs)"

text \<open>What the script reads from the body of a 201 response: a non-empty
  dictionary with the keys \<open>html_url\<close>, \<open>number\<close> and \<open>title\<close>.\<close>

definition readable :: "json_value \<Rightarrow> string \<Rightarrow> bool" where
  "readable j key = (case getitem j key of Inl e \<Rightarrow> False | Inr v \<Rightarrow> True)"

definition issue_json :: "json_value \<Rightarrow> bool" where
  "issue_json j =
     (truthy j \<and> readable j ''html_url'' \<and> readable j ''number'' \<and> readable j ''title'')"

section \<open>Notions used in the statements\<close>

text \<open>The rows that the seed puts into the two tables, read off
  \<open>INITIAL_ACTIVITIES\<close>.\<close>

definition seed_rows :: "(string \<times> activity_info) list \<Rightarrow> activity_row list" where
  "seed_rows xs = map (\<lambda>(name, data). (name, description data, schedule data, max_participants data)) xs"

definition seed_roster :: "(string \<times> activity_info) list \<Rightarrow> participant_row list" where
  "seed_roster xs = concat (map (\<lambda>(name, data). map (Pair name) (participant_emails data)) xs)"

text \<open>The entry of the listing for one activity row: its description, schedule
  and capacity, and the emails registered for it in ascending order.\<close>

definition listing_entry :: "db \<Rightarrow> activity_row \<Rightarrow> string \<times> activity_info" where
  "listing_entry s row =
     (case row of (name, d, sc, m) \<Rightarrow>
        (name, \<lparr>description = d, schedule = sc, max_participants = m,
                participant_emails =
                  sort (map snd (filter (\<lambda>r. fst r = name) (participants s)))\<rparr>))"

text \<open>The constraints that the handlers keep: both primary keys and I2.\<close>

definition store_ok :: "db \<Rightarrow> bool" where
  "store_ok s = (pk_activities s \<and> pk_participants s \<and> within_capacity s)"

text \<open>The records whose call was answered with another status than 201, given
  the responses in the order of the calls.\<close>

definition failures :: "issue_data list \<Rightarrow> response list \<Rightarrow> issue_data list" where
  "failures issues rs = map fst (filter (\<lambda>(issue, resp). status_code resp \<noteq> 201) (zip issues rs))"

section \<open>Frame: the activities table\<close>

lemma activities_insert_participant:
  "insert_participant s row = Inr s' \<Longrightarrow> activities s' = activities s"
  by (auto simp: insert_participant_def split: if_splits)

lemma activities_signup:
  "activities (snd (signup_for_activity s a e)) = activities s"
  by (auto simp: signup_for_activity_def split: option.splits sum.splits
           dest: activities_insert_participant)

lemma activities_unregister:
  "activities (snd (unregister_from_activity s a e)) = activities s"
  by (simp add: unregister_from_activity_def delete_participant_def)

text \<open>
  Claim C7. None of the three operations touches the activities table: after
  \<open>get_activities\<close>, \<open>signup_for_activity\<close> or \<open>unregister_from_activity\<close>, on any
  store and any arguments, whether the call succeeds or raises, the table
  holds the same rows (name, description, schedule, max_participants) in the
  same order as before.
\<close>

theorem activities_table_frame:
  "activities (snd (get_activities s)) = activities s \<and>
   activities (snd (signup_for_activity s a e)) = activities s \<and>
   activities (snd (unregister_from_activity s a e)) = activities s"
  by (simp add: activities_signup activities_unregister get_activities_def)

section \<open>Reading the tables\<close>

lemma filter_name_distinct:
  "distinct (map fst xs) \<Longrightarrow> (a, d, sc, m) \<in> set xs \<Longrightarrow>
   filter (\<lambda>r. fst r = a) xs = [(a, d, sc, m)]"
proof (induction xs)
  case Nil
  then show ?case by simp
next
  case (Cons x xs)
  show ?case
  proof (cases "x = (a, d, sc, m)")
    case True
    with Cons.prems have "a \<notin> fst ` set xs" by auto
    then have "filter (\<lambda>r. fst r = a) xs = []"
      by (force simp: filter_empty_conv)
    with True show ?thesis by simp
  next
    case False
    with Cons.prems have mem: "(a, d, sc, m) \<in> set xs" by auto
    then have "a \<in> fst ` set xs" by force
    with Cons.prems have "fst x \<noteq> a" by auto
    with Cons.IH Cons.prems mem show ?thesis by simp
  qed
qed

lemma select_max_participants_None:
  "select_max_participants s a = None \<longleftrightarrow> a \<notin> fst ` set (activities s)"
proof -
  have "filter (\<lambda>r. fst r = a) (activities s) = [] \<longleftrightarrow> a \<notin> fst ` set (activities s)"
    by (force simp: filter_empty_conv)
  then show ?thesis
    by (auto simp: select_max_participants_def case_prod_unfold split: list.splits)
qed

lemma select_max_participants_Some:
  "pk_activities s \<Longrightarrow> (a, d, sc, m) \<in> set (activities s) \<Longrightarrow>
   select_max_participants s a = Some m"
  by (simp add: select_max_participants_def pk_activities_def filter_name_distinct case_prod_unfold)

lemma activity_exists_iff:
  "activity_exists s a \<longleftrightarrow> a \<in> fst ` set (activities s)"
  by (force simp: activity_exists_def filter_empty_conv case_prod_unfold)

lemma participant_exists_iff:
  "participant_exists s a e \<longleftrightarrow> (a, e) \<in> set (participants s)"
  by (auto simp: participant_exists_def filter_empty_conv)

lemma signup_NotFound:
  "a \<notin> fst ` set (activities s) \<Longrightarrow> signup_for_activity s a e = (Inl NotFound, s)"
  using select_max_participants_None [of s a]
  by (simp add: signup_for_activity_def NotFound_def)

lemma signup_AlreadyRegistered:
  "a \<in> fst ` set (activities s) \<Longrightarrow> (a, e) \<in> set (participants s) \<Longrightarrow>
   signup_for_activity s a e = (Inl AlreadyRegistered, s)"
  using select_max_participants_None [of s a]
  by (auto simp: signup_for_activity_def AlreadyRegistered_def participant_exists_iff
           split: option.splits)

lemma signup_Full:
  "pk_activities s \<Longrightarrow> (a, d, sc, m) \<in> set (activities s) \<Longrightarrow>
   (a, e) \<notin> set (participants s) \<Longrightarrow> m \<le> int (count_participants s a) \<Longrightarrow>
   signup_for_activity s a e = (Inl Full, s)"
  by (simp add: signup_for_activity_def Full_def participant_exists_iff
        select_max_participants_Some)

lemma signup_success:
  "pk_activities s \<Longrightarrow> (a, d, sc, m) \<in> set (activities s) \<Longrightarrow>
   (a, e) \<notin> set (participants s) \<Longrightarrow> int (count_participants s a) < m \<Longrightarrow>
   signup_for_activity s a e =
     (Inr [(''message'', ''Signed up '' @ e @ '' for '' @ a)],
      s\<lparr>participants := participants s @ [(a, e)]\<rparr>)"
  by (simp add: signup_for_activity_def participant_exists_iff
        select_max_participants_Some insert_participant_def)

lemma count_participants_append:
  "count_participants (s\<lparr>participants := participants s @ [(a, e)]\<rparr>) b =
   (if b = a then count_participants s b + 1 else count_participants s b)"
  by (simp add: count_participants_def)

lemma delete_filter_removeAll:
  "filter (\<lambda>(x, y). \<not> (x = a \<and> y = e)) ps = removeAll (a, e) ps"
  by (induction ps) auto

lemma participants_delete:
  "participants (delete_participant s a e) = removeAll (a, e) (participants s)"
  using delete_filter_removeAll [of a e "participants s"]
  by (simp add: delete_participant_def)

lemma length_filter_remove1:
  "x \<in> set ps \<Longrightarrow> P x \<Longrightarrow>
   length (filter P ps) = length (filter P (remove1 x ps)) + 1"
  by (induction ps) auto

lemma length_filter_remove1_other:
  "\<not> P x \<Longrightarrow> filter P (remove1 x ps) = filter P ps"
  by (induction ps) auto

lemma count_participants_delete:
  assumes "distinct (participants s)" and "(a, e) \<in> set (participants s)"
  shows "count_participants s a = count_participants (delete_participant s a e) a + 1"
  using assms length_filter_remove1 [of "(a, e)" "participants s" "\<lambda>(x, y). x = a"]
  by (simp add: count_participants_def participants_delete distinct_remove1_removeAll
        del: length_filter_conv_card)

lemma count_participants_delete_other:
  assumes "distinct (participants s)" and "b \<noteq> a"
  shows "count_participants (delete_participant s a e) b = count_participants s b"
  using assms length_filter_remove1_other [of "\<lambda>(x, y). x = b" "(a, e)" "participants s"]
  by (simp add: count_participants_def participants_delete distinct_remove1_removeAll)

lemma count_participants_delete_le:
  "count_participants (delete_participant s a e) b \<le> count_participants s b"
proof -
  have "length (filter P (removeAll x ps)) \<le> length (filter P ps)" for P and x :: "string \<times> string" and ps
    by (induction ps) auto
  then show ?thesis
    by (simp add: count_participants_def participants_delete)
qed

lemma participants_delete_remove1:
  "distinct (participants s) \<Longrightarrow>
   participants (delete_participant s a e) = remove1 (a, e) (participants s)"
  by (simp add: participants_delete distinct_remove1_removeAll)

lemma unregister_NotFound:
  "a \<notin> fst ` set (activities s) \<Longrightarrow> unregister_from_activity s a e = (Inl NotFound, s)"
  by (simp add: unregister_from_activity_def activity_exists_iff NotFound_def)

lemma unregister_NotRegistered:
  "a \<in> fst ` set (activities s) \<Longrightarrow> (a, e) \<notin> set (participants s) \<Longrightarrow>
   unregister_from_activity s a e = (Inl NotRegistered, s)"
  by (simp add: unregister_from_activity_def activity_exists_iff participant_exists_iff
        NotRegistered_def)

lemma unregister_success:
  "a \<in> fst ` set (activities s) \<Longrightarrow> (a, e) \<in> set (participants s) \<Longrightarrow>
   unregister_from_activity s a e =
     (Inr [(''message'', ''Unregistered '' @ e @ '' from '' @ a)], delete_participant s a e)"
  by (simp add: unregister_from_activity_def activity_exists_iff participant_exists_iff)

lemma not_registered_after_delete:
  "(a, e) \<notin> set (participants (delete_participant s a e))"
  by (simp add: participants_delete)

lemma activities_delete: "activities (delete_participant s a e) = activities s"
  by (simp add: delete_participant_def)


section \<open>Seeding\<close>

lemma insert_roster_ok:
  "distinct (participants s @ map (Pair name) ps) \<Longrightarrow>
   insert_roster name ps s = Inr (s\<lparr>participants := participants s @ map (Pair name) ps\<rparr>)"
proof (induction ps arbitrary: s)
  case Nil
  then show ?case by simp
next
  case (Cons p ps)
  let ?s1 = "s\<lparr>participants := participants s @ [(name, p)]\<rparr>"
  from Cons.prems have ins: "insert_participant s (name, p) = Inr ?s1"
    by (auto simp: insert_participant_def)
  from Cons.prems have "distinct (participants ?s1 @ map (Pair name) ps)"
    by auto
  from Cons.IH [OF this] ins show ?case by simp
qed

lemma seed_ok:
  "distinct (map fst (activities s) @ map fst xs) \<Longrightarrow>
   distinct (participants s @ seed_roster xs) \<Longrightarrow>
   seed xs s = Inr (s\<lparr>activities := activities s @ seed_rows xs,
                      participants := participants s @ seed_roster xs\<rparr>)"
proof (induction xs arbitrary: s)
  case Nil
  then show ?case by (simp add: seed_rows_def seed_roster_def)
next
  case (Cons x xs)
  obtain name data where x: "x = (name, data)" by (cases x) auto
  let ?row = "(name, description data, schedule data, max_participants data)"
  let ?s1 = "s\<lparr>activities := activities s @ [?row]\<rparr>"
  let ?s2 = "?s1\<lparr>participants := participants ?s1 @ map (Pair name) (participant_emails data)\<rparr>"
  from Cons.prems(1) x have ins: "insert_activity s ?row = Inr ?s1"
    by (auto simp: insert_activity_def)
  from Cons.prems(2) x have "distinct (participants ?s1 @ map (Pair name) (participant_emails data))"
    by (auto simp: seed_roster_def)
  then have ros: "insert_roster name (participant_emails data) ?s1 = Inr ?s2"
    by (rule insert_roster_ok)
  from Cons.prems x have d1: "distinct (map fst (activities ?s2) @ map fst xs)"
    by auto
  from Cons.prems(2) x have d2: "distinct (participants ?s2 @ seed_roster xs)"
    by (auto simp: seed_roster_def)
  from Cons.IH [OF d1 d2] ins ros x show ?case
    by (simp add: seed_rows_def seed_roster_def)
qed


lemma INITIAL_names_distinct: "distinct (map fst INITIAL_ACTIVITIES)"
  by (simp add: INITIAL_ACTIVITIES_def)

lemma INITIAL_roster_distinct: "distinct (seed_roster INITIAL_ACTIVITIES)"
  by (simp add: INITIAL_ACTIVITIES_def seed_roster_def)

lemma init_db_empty:
  "init_db empty_db =
     (Inr (), \<lparr>activities = seed_rows INITIAL_ACTIVITIES,
               participants = seed_roster INITIAL_ACTIVITIES\<rparr>)"
  using seed_ok [of empty_db INITIAL_ACTIVITIES] INITIAL_names_distinct INITIAL_roster_distinct
  by (simp add: init_db_def count_activities_def empty_db_def)


section \<open>The listing\<close>

lemma update_fresh:
  "k \<notin> fst ` set al \<Longrightarrow> AList.update k v al = al @ [(k, v)]"
  by (induction al) auto

lemma listing_entry_fst: "fst (listing_entry s row) = fst row"
  by (cases row) (simp add: listing_entry_def)

lemma add_activity_fresh:
  "fst row \<notin> fst ` set acts \<Longrightarrow> add_activity s row acts = acts @ [listing_entry s row]"
  by (cases row) (simp add: add_activity_def listing_entry_def update_fresh select_emails_def
        case_prod_unfold)

lemma fold_add_activity:
  "distinct (map fst acts @ map fst rows) \<Longrightarrow>
   fold (add_activity s) rows acts = acts @ map (listing_entry s) rows"
proof (induction rows arbitrary: acts)
  case Nil
  then show ?case by simp
next
  case (Cons row rows)
  from Cons.prems have fresh: "fst row \<notin> fst ` set acts" by auto
  from Cons.prems have "distinct (map fst (acts @ [listing_entry s row]) @ map fst rows)"
    by (auto simp: listing_entry_fst)
  from Cons.IH [OF this] fresh show ?case
    by (simp add: add_activity_fresh)
qed

lemma build_activity_dict_pk:
  "pk_activities s \<Longrightarrow> build_activity_dict s = map (listing_entry s) (activities s)"
  using fold_add_activity [of "[]" "activities s" s]
  by (simp add: build_activity_dict_def pk_activities_def)

lemma build_activity_dict_keys:
  "fst ` set (build_activity_dict s) = fst ` set (activities s)"
proof -
  have "fst ` set (fold (add_activity s) rows acts) = fst ` set acts \<union> fst ` set rows" for rows acts
  proof (induction rows arbitrary: acts)
    case Nil
    then show ?case by simp
  next
    case (Cons row rows)
    have "fst ` set (add_activity s row acts) = {fst row} \<union> fst ` set acts"
      by (cases row) (simp add: add_activity_def dom_update)
    with Cons show ?case by auto
  qed
  from this [of "activities s" "[]"] show ?thesis
    by (simp add: build_activity_dict_def)
qed

section \<open>The invariants of the reachable stores\<close>

lemma signup_cases:
  "snd (signup_for_activity s a e) = s \<or>
   (\<exists>m. select_max_participants s a = Some m \<and> (a, e) \<notin> set (participants s) \<and>
        int (count_participants s a) < m \<and>
        snd (signup_for_activity s a e) = s\<lparr>participants := participants s @ [(a, e)]\<rparr>)"
  by (auto simp: signup_for_activity_def insert_participant_def participant_exists_iff
           split: option.splits)

lemma unregister_cases:
  "snd (unregister_from_activity s a e) = s \<or>
   snd (unregister_from_activity s a e) = delete_participant s a e"
  by (simp add: unregister_from_activity_def)

lemma select_max_participants_row:
  "pk_activities s \<Longrightarrow> row \<in> set (activities s) \<Longrightarrow>
   select_max_participants s (fst row) = Some (snd (snd (snd row)))"
  by (cases row) (auto dest: select_max_participants_Some)

lemma store_ok_insert:
  assumes ok: "store_ok s"
    and m: "select_max_participants s a = Some m"
    and new: "(a, e) \<notin> set (participants s)"
    and room: "int (count_participants s a) < m"
  shows "store_ok (s\<lparr>participants := participants s @ [(a, e)]\<rparr>)"
proof -
  let ?s' = "s\<lparr>participants := participants s @ [(a, e)]\<rparr>"
  from ok have pa: "pk_activities s" and pp: "pk_participants s" and wc: "within_capacity s"
    by (simp_all add: store_ok_def)
  have "pk_activities ?s'" using pa by (simp add: pk_activities_def)
  moreover have "pk_participants ?s'" using pp new by (simp add: pk_participants_def)
  moreover have "within_capacity ?s'"
    unfolding within_capacity_def
  proof
    fix row assume row: "row \<in> set (activities ?s')"
    then have row': "row \<in> set (activities s)" by simp
    with wc have le: "int (count_participants s (fst row)) \<le> snd (snd (snd row))"
      by (simp add: within_capacity_def)
    show "int (count_participants ?s' (fst row)) \<le> snd (snd (snd row))"
    proof (cases "fst row = a")
      case True
      with select_max_participants_row [OF pa row'] m have "snd (snd (snd row)) = m" by simp
      with room True show ?thesis by (simp add: count_participants_append)
    next
      case False
      with le show ?thesis by (simp add: count_participants_append)
    qed
  qed
  ultimately show ?thesis by (simp add: store_ok_def)
qed

lemma store_ok_delete:
  assumes ok: "store_ok s"
  shows "store_ok (delete_participant s a e)"
proof -
  from ok have pa: "pk_activities s" and pp: "pk_participants s" and wc: "within_capacity s"
    by (simp_all add: store_ok_def)
  have "pk_activities (delete_participant s a e)"
    using pa by (simp add: pk_activities_def activities_delete)
  moreover have "pk_participants (delete_participant s a e)"
    using pp by (simp add: pk_participants_def participants_delete distinct_removeAll)
  moreover have "within_capacity (delete_participant s a e)"
    unfolding within_capacity_def
  proof
    fix row assume "row \<in> set (activities (delete_participant s a e))"
    then have "row \<in> set (activities s)" by (simp add: activities_delete)
    with wc have "int (count_participants s (fst row)) \<le> snd (snd (snd row))"
      by (simp add: within_capacity_def)
    with count_participants_delete_le [of s a e "fst row"]
    show "int (count_participants (delete_participant s a e) (fst row)) \<le> snd (snd (snd row))"
      by linarith
  qed
  ultimately show ?thesis by (simp add: store_ok_def)
qed

lemma seed_rows_names: "map fst (seed_rows xs) = map fst xs"
  by (induction xs) (auto simp: seed_rows_def)

lemma seeded_within_capacity:
  "within_capacity \<lparr>activities = seed_rows INITIAL_ACTIVITIES,
                    participants = seed_roster INITIAL_ACTIVITIES\<rparr>"
  by (simp add: within_capacity_def count_participants_def seed_rows_def seed_roster_def
        INITIAL_ACTIVITIES_def)

lemma store_ok_start: "store_ok (snd (init_db empty_db))"
  using INITIAL_names_distinct INITIAL_roster_distinct seeded_within_capacity
  by (simp add: init_db_empty store_ok_def pk_activities_def pk_participants_def seed_rows_names)

lemma reachable_store_ok: "reachable s \<Longrightarrow> store_ok s"
proof (induction rule: reachable.induct)
  case start
  show ?case by (rule store_ok_start)
next
  case (signup s activity_name email)
  from signup_cases [of s activity_name email] signup.IH show ?case
    by (auto intro: store_ok_insert)
next
  case (unregister s activity_name email)
  from unregister_cases [of s activity_name email] unregister.IH show ?case
    by (auto intro: store_ok_delete)
qed

text \<open>
  Claim C1. Every store that the service reaches from the seeded first store,
  by any sequence of signup and unregister requests handled one after the
  other, satisfies I1 (no pair of activity name and email occurs twice in the
  participants table) and I2 (no activity has more registrations than its
  \<open>max_participants\<close>).
\<close>

theorem reachable_invariants:
  "reachable s \<Longrightarrow> pk_participants s \<and> within_capacity s"
  using reachable_store_ok [of s] by (simp add: store_ok_def)

theorem reachable_invariants_witness:
  "reachable (snd (signup_for_activity (snd (init_db empty_db)) ''Chess Club'' ''new@school.edu'')) \<and>
   pk_participants (snd (signup_for_activity (snd (init_db empty_db)) ''Chess Club'' ''new@school.edu'')) \<and>
   within_capacity (snd (signup_for_activity (snd (init_db empty_db)) ''Chess Club'' ''new@school.edu''))"
proof -
  have r: "reachable (snd (signup_for_activity (snd (init_db empty_db)) ''Chess Club'' ''new@school.edu''))"
    by (intro reachable.signup reachable.start)
  from r reachable_invariants [OF r] show ?thesis by simp
qed

section \<open>Signing up\<close>

text \<open>
  Claim C2. \<open>signup_for_activity\<close> checks in this order, and a call that fails
  returns the store as it was, so that no registrant count changes: when no
  activity has the name it raises \<open>NotFound\<close>, whatever the email; when the
  activity exists and the pair is already registered it raises
  \<open>AlreadyRegistered\<close>, also when the activity is full (nothing is assumed of
  the count); when the pair is new and the count has reached
  \<open>max_participants\<close> it raises \<open>Full\<close>; otherwise it succeeds.
\<close>

theorem signup_precondition_order:
  "(a \<notin> fst ` set (activities s) \<longrightarrow> signup_for_activity s a e = (Inl NotFound, s)) \<and>
   (a \<in> fst ` set (activities s) \<and> (a, e) \<in> set (participants s) \<longrightarrow>
      signup_for_activity s a e = (Inl AlreadyRegistered, s)) \<and>
   (pk_activities s \<and> (a, d, sc, m) \<in> set (activities s) \<and> (a, e) \<notin> set (participants s) \<and>
    m \<le> int (count_participants s a) \<longrightarrow>
      signup_for_activity s a e = (Inl Full, s)) \<and>
   (pk_activities s \<and> (a, d, sc, m) \<in> set (activities s) \<and> (a, e) \<notin> set (participants s) \<and>
    int (count_participants s a) < m \<longrightarrow>
      signup_for_activity s a e =
        (Inr [(''message'', ''Signed up '' @ e @ '' for '' @ a)],
         s\<lparr>participants := participants s @ [(a, e)]\<rparr>))"
proof (intro conjI impI)
  assume "a \<notin> fst ` set (activities s)"
  then show "signup_for_activity s a e = (Inl NotFound, s)"
    by (rule signup_NotFound)
next
  assume "a \<in> fst ` set (activities s) \<and> (a, e) \<in> set (participants s)"
  then show "signup_for_activity s a e = (Inl AlreadyRegistered, s)"
    by (simp add: signup_AlreadyRegistered)
next
  assume "pk_activities s \<and> (a, d, sc, m) \<in> set (activities s) \<and>
    (a, e) \<notin> set (participants s) \<and> m \<le> int (count_participants s a)"
  then show "signup_for_activity s a e = (Inl Full, s)"
    using signup_Full [of s a d sc m e] by simp
next
  assume "pk_activities s \<and> (a, d, sc, m) \<in> set (activities s) \<and>
    (a, e) \<notin> set (participants s) \<and> int (count_participants s a) < m"
  then show "signup_for_activity s a e =
     (Inr [(''message'', ''Signed up '' @ e @ '' for '' @ a)],
      s\<lparr>participants := participants s @ [(a, e)]\<rparr>)"
    using signup_success [of s a d sc m e] by simp
qed

theorem signup_precondition_order_witness:
  "signup_for_activity
     \<lparr>activities = [(''Chess Club'', ''d'', ''s'', 1)], participants = [(''Chess Club'', ''a@x'')]\<rparr>
     ''Gym Class'' ''a@x'' =
     (Inl NotFound,
      \<lparr>activities = [(''Chess Club'', ''d'', ''s'', 1)], participants = [(''Chess Club'', ''a@x'')]\<rparr>) \<and>
   signup_for_activity
     \<lparr>activities = [(''Chess Club'', ''d'', ''s'', 1)], participants = [(''Chess Club'', ''a@x'')]\<rparr>
     ''Chess Club'' ''a@x'' =
     (Inl AlreadyRegistered,
      \<lparr>activities = [(''Chess Club'', ''d'', ''s'', 1)], participants = [(''Chess Club'', ''a@x'')]\<rparr>) \<and>
   signup_for_activity
     \<lparr>activities = [(''Chess Club'', ''d'', ''s'', 1)], participants = [(''Chess Club'', ''a@x'')]\<rparr>
     ''Chess Club'' ''b@x'' =
     (Inl Full,
      \<lparr>activities = [(''Chess Club'', ''d'', ''s'', 1)], participants = [(''Chess Club'', ''a@x'')]\<rparr>) \<and>
   signup_for_activity
     \<lparr>activities = [(''Chess Club'', ''d'', ''s'', 2)], participants = [(''Chess Club'', ''a@x'')]\<rparr>
     ''Chess Club'' ''b@x'' =
     (Inr [(''message'', ''Signed up b@x for Chess Club'')],
      \<lparr>activities = [(''Chess Club'', ''d'', ''s'', 2)],
       participants = [(''Chess Club'', ''a@x''), (''Chess Club'', ''b@x'')]\<rparr>)"
  using
    signup_precondition_order [of "''Gym Class''"
      "\<lparr>activities = [(''Chess Club'', ''d'', ''s'', 1)], participants = [(''Chess Club'', ''a@x'')]\<rparr>"
      "''a@x''" "''d''" "''s''" 1]
    signup_precondition_order [of "''Chess Club''"
      "\<lparr>activities = [(''Chess Club'', ''d'', ''s'', 1)], participants = [(''Chess Club'', ''a@x'')]\<rparr>"
      "''a@x''" "''d''" "''s''" 1]
    signup_precondition_order [of "''Chess Club''"
      "\<lparr>activities = [(''Chess Club'', ''d'', ''s'', 1)], participants = [(''Chess Club'', ''a@x'')]\<rparr>"
      "''b@x''" "''d''" "''s''" 1]
    signup_precondition_order [of "''Chess Club''"
      "\<lparr>activities = [(''Chess Club'', ''d'', ''s'', 2)], participants = [(''Chess Club'', ''a@x'')]\<rparr>"
      "''b@x''" "''d''" "''s''" 2]
  by (simp add: pk_activities_def count_participants_def)

text \<open>
  Claim C3. For an activity \<open>a\<close> of capacity \<open>c\<close> with fewer than \<open>c\<close>
  registrants and an email \<open>e\<close> not registered for it, the signup succeeds:
  it adds the one row \<open>(a, e)\<close> to the participants table, the count of \<open>a\<close>
  grows by one, the message names the email and the activity, the counts of
  the other activities and the activities table stay as they were.
\<close>

theorem signup_success_effect:
  assumes "pk_activities s" and "(a, d, sc, c) \<in> set (activities s)"
    and "(a, e) \<notin> set (participants s)" and "int (count_participants s a) < c"
  shows "signup_for_activity s a e =
           (Inr [(''message'', ''Signed up '' @ e @ '' for '' @ a)],
            s\<lparr>participants := participants s @ [(a, e)]\<rparr>) \<and>
         count_participants (snd (signup_for_activity s a e)) a = count_participants s a + 1 \<and>
         (\<forall>b. b \<noteq> a \<longrightarrow>
            count_participants (snd (signup_for_activity s a e)) b = count_participants s b) \<and>
         activities (snd (signup_for_activity s a e)) = activities s"
  using assms by (simp add: signup_success count_participants_append)

theorem signup_success_effect_witness:
  "pk_activities (snd (init_db empty_db)) \<and>
   (''Chess Club'', ''Learn strategies and compete in chess tournaments'',
      ''Fridays, 3:30 PM - 5:00 PM'', 12) \<in> set (activities (snd (init_db empty_db))) \<and>
   (''Chess Club'', ''new@school.edu'') \<notin> set (participants (snd (init_db empty_db))) \<and>
   count_participants (snd (init_db empty_db)) ''Chess Club'' = 2 \<and>
   fst (signup_for_activity (snd (init_db empty_db)) ''Chess Club'' ''new@school.edu'') =
     Inr [(''message'', ''Signed up new@school.edu for Chess Club'')] \<and>
   count_participants
     (snd (signup_for_activity (snd (init_db empty_db)) ''Chess Club'' ''new@school.edu''))
     ''Chess Club'' = 3"
proof -
  have h1: "pk_activities (snd (init_db empty_db))"
    using INITIAL_names_distinct by (simp add: init_db_empty pk_activities_def seed_rows_names)
  have h2: "(''Chess Club'', ''Learn strategies and compete in chess tournaments'',
      ''Fridays, 3:30 PM - 5:00 PM'', 12) \<in> set (activities (snd (init_db empty_db)))"
    by (simp add: init_db_empty seed_rows_def INITIAL_ACTIVITIES_def)
  have h3: "(''Chess Club'', ''new@school.edu'') \<notin> set (participants (snd (init_db empty_db)))"
    by (simp add: init_db_empty seed_roster_def INITIAL_ACTIVITIES_def)
  have h4: "count_participants (snd (init_db empty_db)) ''Chess Club'' = 2"
    by (simp add: init_db_empty seed_roster_def INITIAL_ACTIVITIES_def count_participants_def)
  have h5: "int (count_participants (snd (init_db empty_db)) ''Chess Club'') < 12"
    by (simp add: h4)
  from signup_success_effect [OF h1 h2 h3 h5] h1 h2 h3 h4 show ?thesis
    by (simp add: count_participants_append)
qed

section \<open>Unregistering\<close>

text \<open>
  Claim C4. \<open>unregister_from_activity\<close> raises \<open>NotFound\<close> when no activity
  has the name, whatever the email, and \<open>NotRegistered\<close> when the activity
  exists and the pair is not registered; both leave the store as it was. When
  the pair is registered the call succeeds, removes that one row, so that the
  count of the activity falls by one and nothing else changes, returns a
  message, and the same call made again raises \<open>NotRegistered\<close>.
\<close>

theorem unregister_spec:
  "(a \<notin> fst ` set (activities s) \<longrightarrow> unregister_from_activity s a e = (Inl NotFound, s)) \<and>
   (a \<in> fst ` set (activities s) \<and> (a, e) \<notin> set (participants s) \<longrightarrow>
      unregister_from_activity s a e = (Inl NotRegistered, s)) \<and>
   (a \<in> fst ` set (activities s) \<and> (a, e) \<in> set (participants s) \<and> pk_participants s \<longrightarrow>
      (let s' = snd (unregister_from_activity s a e) in
         fst (unregister_from_activity s a e) =
           Inr [(''message'', ''Unregistered '' @ e @ '' from '' @ a)] \<and>
         participants s' = remove1 (a, e) (participants s) \<and>
         activities s' = activities s \<and>
         count_participants s a = count_participants s' a + 1 \<and>
         (\<forall>b. b \<noteq> a \<longrightarrow> count_participants s' b = count_participants s b) \<and>
         unregister_from_activity s' a e = (Inl NotRegistered, s')))"
proof (intro conjI impI)
  assume "a \<notin> fst ` set (activities s)"
  then show "unregister_from_activity s a e = (Inl NotFound, s)"
    by (rule unregister_NotFound)
next
  assume "a \<in> fst ` set (activities s) \<and> (a, e) \<notin> set (participants s)"
  then show "unregister_from_activity s a e = (Inl NotRegistered, s)"
    by (simp add: unregister_NotRegistered)
next
  assume h: "a \<in> fst ` set (activities s) \<and> (a, e) \<in> set (participants s) \<and> pk_participants s"
  then have u: "unregister_from_activity s a e =
     (Inr [(''message'', ''Unregistered '' @ e @ '' from '' @ a)], delete_participant s a e)"
    by (simp add: unregister_success)
  from h have d: "distinct (participants s)" by (simp add: pk_participants_def)
  have again: "unregister_from_activity (delete_participant s a e) a e =
      (Inl NotRegistered, delete_participant s a e)"
    using h by (intro unregister_NotRegistered) (simp_all add: activities_delete not_registered_after_delete)
  show "let s' = snd (unregister_from_activity s a e) in
         fst (unregister_from_activity s a e) =
           Inr [(''message'', ''Unregistered '' @ e @ '' from '' @ a)] \<and>
         participants s' = remove1 (a, e) (participants s) \<and>
         activities s' = activities s \<and>
         count_participants s a = count_participants s' a + 1 \<and>
         (\<forall>b. b \<noteq> a \<longrightarrow> count_participants s' b = count_participants s b) \<and>
         unregister_from_activity s' a e = (Inl NotRegistered, s')"
    unfolding u Let_def fst_conv snd_conv
    using h d again count_participants_delete [of s a e]
    by (simp add: participants_delete_remove1 activities_delete
          count_participants_delete_other)
qed



theorem unregister_spec_witness:
  "unregister_from_activity
     \<lparr>activities = [(''Chess Club'', ''d'', ''s'', 2)], participants = [(''Chess Club'', ''a@x'')]\<rparr>
     ''Gym Class'' ''a@x'' =
     (Inl NotFound,
      \<lparr>activities = [(''Chess Club'', ''d'', ''s'', 2)], participants = [(''Chess Club'', ''a@x'')]\<rparr>) \<and>
   unregister_from_activity
     \<lparr>activities = [(''Chess Club'', ''d'', ''s'', 2)], participants = [(''Chess Club'', ''a@x'')]\<rparr>
     ''Chess Club'' ''b@x'' =
     (Inl NotRegistered,
      \<lparr>activities = [(''Chess Club'', ''d'', ''s'', 2)], participants = [(''Chess Club'', ''a@x'')]\<rparr>) \<and>
   unregister_from_activity
     \<lparr>activities = [(''Chess Club'', ''d'', ''s'', 2)],
      participants = [(''Chess Club'', ''a@x''), (''Chess Club'', ''b@x'')]\<rparr>
     ''Chess Club'' ''a@x'' =
     (Inr [(''message'', ''Unregistered a@x from Chess Club'')],
      \<lparr>activities = [(''Chess Club'', ''d'', ''s'', 2)], participants = [(''Chess Club'', ''b@x'')]\<rparr>) \<and>
   unregister_from_activity
     \<lparr>activities = [(''Chess Club'', ''d'', ''s'', 2)], participants = [(''Chess Club'', ''b@x'')]\<rparr>
     ''Chess Club'' ''a@x'' =
     (Inl NotRegistered,
      \<lparr>activities = [(''Chess Club'', ''d'', ''s'', 2)], participants = [(''Chess Club'', ''b@x'')]\<rparr>)"
proof -
  let ?s = "\<lparr>activities = [(''Chess Club'', ''d'', ''s'', 2)], participants = [(''Chess Club'', ''a@x'')]\<rparr>"
  let ?t = "\<lparr>activities = [(''Chess Club'', ''d'', ''s'', 2)],
      participants = [(''Chess Club'', ''a@x''), (''Chess Club'', ''b@x'')]\<rparr>"
  let ?t' = "\<lparr>activities = [(''Chess Club'', ''d'', ''s'', 2)], participants = [(''Chess Club'', ''b@x'')]\<rparr>"
  have c1: "unregister_from_activity ?s ''Gym Class'' ''a@x'' = (Inl NotFound, ?s)"
    using unregister_spec [of "''Gym Class''" ?s "''a@x''"] by simp
  have c2: "unregister_from_activity ?s ''Chess Club'' ''b@x'' = (Inl NotRegistered, ?s)"
    using unregister_spec [of "''Chess Club''" ?s "''b@x''"] by simp
  have h: "''Chess Club'' \<in> fst ` set (activities ?t) \<and>
           (''Chess Club'', ''a@x'') \<in> set (participants ?t) \<and> pk_participants ?t"
    by (simp add: pk_participants_def)
  from unregister_spec [of "''Chess Club''" ?t "''a@x''"] h
  have c3: "fst (unregister_from_activity ?t ''Chess Club'' ''a@x'') =
              Inr [(''message'', ''Unregistered a@x from Chess Club'')] \<and>
            participants (snd (unregister_from_activity ?t ''Chess Club'' ''a@x'')) = [(''Chess Club'', ''b@x'')] \<and>
            activities (snd (unregister_from_activity ?t ''Chess Club'' ''a@x'')) = activities ?t \<and>
            unregister_from_activity (snd (unregister_from_activity ?t ''Chess Club'' ''a@x'')) ''Chess Club'' ''a@x'' =
              (Inl NotRegistered, snd (unregister_from_activity ?t ''Chess Club'' ''a@x''))"
    by (simp add: Let_def)
  then have s': "snd (unregister_from_activity ?t ''Chess Club'' ''a@x'') = ?t'"
    by simp
  from c3 s' have c4: "unregister_from_activity ?t ''Chess Club'' ''a@x'' =
      (Inr [(''message'', ''Unregistered a@x from Chess Club'')], ?t')"
    by (simp add: prod_eq_iff)
  from c3 s' have c5: "unregister_from_activity ?t' ''Chess Club'' ''a@x'' = (Inl NotRegistered, ?t')"
    by simp
  from c1 c2 c4 c5 show ?thesis by blast
qed


section \<open>Listing the activities\<close>

text \<open>
  Claim C5, as the code has it. On every store \<open>get_activities\<close> returns a
  listing, never an exception, and the store as it was. The keys of the listing
  are the names in the activities table; for a table with distinct names (the
  primary key) the listing has one entry for each row, in the order of the
  rows, with the description, schedule and \<open>max_participants\<close> of the row and
  the emails registered for the name in ascending order, which is the order of
  the primary-key index and not the order of insertion; with no activity rows
  the listing is empty.
\<close>

theorem get_activities_spec:
  "get_activities s = (Inr (build_activity_dict s), s) \<and>
   fst ` set (build_activity_dict s) = fst ` set (activities s) \<and>
   (pk_activities s \<longrightarrow> build_activity_dict s = map (listing_entry s) (activities s)) \<and>
   (activities s = [] \<longrightarrow> build_activity_dict s = [])"
  by (simp add: get_activities_def build_activity_dict_keys build_activity_dict_pk)
    (simp add: build_activity_dict_def)

theorem get_activities_spec_witness:
  "get_activities
     \<lparr>activities = [(''Chess Club'', ''d'', ''s'', 2), (''Art Club'', ''e'', ''t'', 3)],
      participants = [(''Chess Club'', ''b@x''), (''Art Club'', ''c@x''), (''Chess Club'', ''a@x'')]\<rparr> =
     (Inr [(''Chess Club'', \<lparr>description = ''d'', schedule = ''s'', max_participants = 2,
                             participant_emails = [''a@x'', ''b@x'']\<rparr>),
           (''Art Club'', \<lparr>description = ''e'', schedule = ''t'', max_participants = 3,
                           participant_emails = [''c@x'']\<rparr>)],
      \<lparr>activities = [(''Chess Club'', ''d'', ''s'', 2), (''Art Club'', ''e'', ''t'', 3)],
       participants = [(''Chess Club'', ''b@x''), (''Art Club'', ''c@x''), (''Chess Club'', ''a@x'')]\<rparr>) \<and>
   get_activities \<lparr>activities = [], participants = [(''Chess Club'', ''b@x'')]\<rparr> =
     (Inr [], \<lparr>activities = [], participants = [(''Chess Club'', ''b@x'')]\<rparr>)"
  using
    get_activities_spec [of "\<lparr>activities = [(''Chess Club'', ''d'', ''s'', 2), (''Art Club'', ''e'', ''t'', 3)],
      participants = [(''Chess Club'', ''b@x''), (''Art Club'', ''c@x''), (''Chess Club'', ''a@x'')]\<rparr>"]
    get_activities_spec [of "\<lparr>activities = [], participants = [(''Chess Club'', ''b@x'')]\<rparr>"]
  by (simp add: pk_activities_def listing_entry_def less_eq_list_code less_list_code)

text \<open>
  Claim C5, as it is stated, fails on the order of the participants: after
  \<open>b@x\<close> and then \<open>a@x\<close> have signed up for an activity, the participants
  table holds them in that order, and the listing shows \<open>a@x\<close> before \<open>b@x\<close>.
\<close>

theorem listing_not_in_insertion_order:
  "participants
     (snd (signup_for_activity
        (snd (signup_for_activity
           \<lparr>activities = [(''Chess Club'', ''d'', ''s'', 5)], participants = []\<rparr>
           ''Chess Club'' ''b@x''))
        ''Chess Club'' ''a@x'')) =
     [(''Chess Club'', ''b@x''), (''Chess Club'', ''a@x'')] \<and>
   fst (get_activities
     (snd (signup_for_activity
        (snd (signup_for_activity
           \<lparr>activities = [(''Chess Club'', ''d'', ''s'', 5)], participants = []\<rparr>
           ''Chess Club'' ''b@x''))
        ''Chess Club'' ''a@x''))) =
     Inr [(''Chess Club'', \<lparr>description = ''d'', schedule = ''s'', max_participants = 5,
                             participant_emails = [''a@x'', ''b@x'']\<rparr>)]"
  by (simp add: signup_for_activity_def select_max_participants_def participant_exists_def
        count_participants_def insert_participant_def get_activities_def
        build_activity_dict_def add_activity_def select_emails_def
        less_eq_list_code less_list_code)

section \<open>Initialising the store\<close>







text \<open>
  The foreign key matters: a participants table that has kept a seeded
  registration while the activities table was emptied makes the first
  \<open>INSERT\<close> of that registration fail, and \<open>init_db\<close> raises without committing.
\<close>

lemma init_db_collision:
  "init_db \<lparr>activities = [], participants = [(''Chess Club'', ''michael@mergington.edu'')]\<rparr> =
     (Inl IntegrityError,
      \<lparr>activities = [], participants = [(''Chess Club'', ''michael@mergington.edu'')]\<rparr>)"
  by (simp add: init_db_def count_activities_def INITIAL_ACTIVITIES_def insert_activity_def
        insert_participant_def)

text \<open>The listing of the freshly seeded store: the entries of
  \<open>INITIAL_ACTIVITIES\<close>, each roster in ascending order.\<close>

lemma seeded_listing:
  "build_activity_dict (snd (init_db empty_db)) =
     map (\<lambda>(name, data). (name, data\<lparr>participant_emails := sort (participant_emails data)\<rparr>))
       INITIAL_ACTIVITIES"
proof -
  have "pk_activities (snd (init_db empty_db))"
    using INITIAL_names_distinct by (simp add: init_db_empty pk_activities_def seed_rows_names)
  then show ?thesis
    by (simp add: build_activity_dict_pk)
      (simp add: init_db_empty listing_entry_def seed_rows_def seed_roster_def INITIAL_ACTIVITIES_def)
qed

section \<open>Emails are not validated\<close>

lemma sort_snoc: "sort (xs @ [x]) = insort x (sort xs)"
  by (induction xs) (simp_all add: insort_left_comm)

lemma listing_lookup:
  assumes "pk_activities s" and "(a, d, sc, c) \<in> set (activities s)"
  shows "map_of (build_activity_dict s) a =
           Some \<lparr>description = d, schedule = sc, max_participants = c,
                 participant_emails =
                   sort (map snd (filter (\<lambda>r. fst r = a) (participants s)))\<rparr>"
proof -
  from assms(1) have "distinct (map fst (map (listing_entry s) (activities s)))"
    by (simp add: pk_activities_def listing_entry_fst [abs_def] comp_def)
  moreover from assms(2) have "listing_entry s (a, d, sc, c) \<in> set (map (listing_entry s) (activities s))"
    by force
  ultimately show ?thesis
    using assms(1) by (simp add: build_activity_dict_pk listing_entry_def)
qed

text \<open>
  Claim C10. The email is not validated: for every string \<open>e\<close>, the empty one
  included, when the activity exists, the pair is not registered and the
  activity is below its capacity, the signup succeeds, the row \<open>(a, e)\<close> with
  that very string is in the participants table, the listing of the new store
  shows \<open>e\<close> among the participants of the activity, put in its place in the
  ascending order of those it showed before, and the count of the activity has
  grown by one.
\<close>

theorem signup_any_email:
  assumes "pk_activities s" and "(a, d, sc, c) \<in> set (activities s)"
    and "(a, e) \<notin> set (participants s)" and "int (count_participants s a) < c"
  shows "fst (signup_for_activity s a e) =
           Inr [(''message'', ''Signed up '' @ e @ '' for '' @ a)] \<and>
         (a, e) \<in> set (participants (snd (signup_for_activity s a e))) \<and>
         (\<exists>info. map_of (build_activity_dict (snd (signup_for_activity s a e))) a = Some info \<and>
                 e \<in> set (participant_emails info) \<and>
                 participant_emails info = insort e (select_emails s a)) \<and>
         count_participants (snd (signup_for_activity s a e)) a = count_participants s a + 1"
proof -
  let ?s' = "s\<lparr>participants := participants s @ [(a, e)]\<rparr>"
  have r: "signup_for_activity s a e =
           (Inr [(''message'', ''Signed up '' @ e @ '' for '' @ a)], ?s')"
    using assms by (rule signup_success)
  have pk: "pk_activities ?s'" using assms(1) by (simp add: pk_activities_def)
  have row: "(a, d, sc, c) \<in> set (activities ?s')" using assms(2) by simp
  have "participant_emails (the (map_of (build_activity_dict ?s') a)) =
          insort e (select_emails s a)"
    by (simp add: listing_lookup [OF pk row] select_emails_def case_prod_unfold sort_snoc)
  moreover have "e \<in> set (insort e (select_emails s a))"
    by (simp add: set_insort_key)
  moreover have "map_of (build_activity_dict ?s') a \<noteq> None"
    by (simp add: listing_lookup [OF pk row])
  ultimately have "\<exists>info. map_of (build_activity_dict ?s') a = Some info \<and>
                 e \<in> set (participant_emails info) \<and>
                 participant_emails info = insort e (select_emails s a)"
    by auto
  with r show ?thesis by (simp add: count_participants_append)
qed

theorem signup_any_email_witness:
  "fst (signup_for_activity
     \<lparr>activities = [(''Chess Club'', ''d'', ''s'', 2)], participants = [(''Chess Club'', ''a@x'')]\<rparr>
     ''Chess Club'' '''') = Inr [(''message'', ''Signed up  for Chess Club'')] \<and>
   (''Chess Club'', '''') \<in> set (participants (snd (signup_for_activity
     \<lparr>activities = [(''Chess Club'', ''d'', ''s'', 2)], participants = [(''Chess Club'', ''a@x'')]\<rparr>
     ''Chess Club'' ''''))) \<and>
   (\<exists>info. map_of (build_activity_dict (snd (signup_for_activity
     \<lparr>activities = [(''Chess Club'', ''d'', ''s'', 2)], participants = [(''Chess Club'', ''a@x'')]\<rparr>
     ''Chess Club'' ''''))) ''Chess Club'' = Some info \<and> '''' \<in> set (participant_emails info) \<and>
     participant_emails info = ['''', ''a@x'']) \<and>
   count_participants (snd (signup_for_activity
     \<lparr>activities = [(''Chess Club'', ''d'', ''s'', 2)], participants = [(''Chess Club'', ''a@x'')]\<rparr>
     ''Chess Club'' '''')) ''Chess Club'' = 2"
proof -
  let ?s = "\<lparr>activities = [(''Chess Club'', ''d'', ''s'', 2)], participants = [(''Chess Club'', ''a@x'')]\<rparr>"
  have h1: "pk_activities ?s" by (simp add: pk_activities_def)
  have h2: "(''Chess Club'', ''d'', ''s'', 2) \<in> set (activities ?s)" by simp
  have h3: "(''Chess Club'', '''') \<notin> set (participants ?s)" by simp
  have h4: "int (count_participants ?s ''Chess Club'') < 2" by (simp add: count_participants_def)
  from signup_any_email [OF h1 h2 h3 h4] show ?thesis
    by (simp add: count_participants_def select_emails_def less_eq_list_code less_list_code)
qed

section \<open>The issue script\<close>

lemma create_loop_step_failed:
  assumes "post (remote (network st)) (mk_request tok rp issue) = (resp, w')"
    and "status_code resp \<noteq> 201"
  shows "create_loop post tok rp n i (issue # rest) st =
         create_loop post tok rp n (Suc i) rest
           \<lparr>created_issues = created_issues st,
            failed_issues = failed_issues st @ [title issue],
            out = out st @ [Progress i n (title issue),
                            ErrCreating (title issue) (status_code resp),
                            ResponseText (resp_text resp), FailedToCreate],
            network = \<lparr>trace = trace (network st) @ [mk_request tok rp issue],
                       remote = w'\<rparr>\<rparr>"
  using assms by (cases st) (simp add: create_github_issue_def requests_post_def)

lemma create_loop_step_created:
  assumes "post (remote (network st)) (mk_request tok rp issue) = (resp, w')"
    and "status_code resp = 201" and "truthy (json resp)"
    and "getitem (json resp) ''html_url'' = Inr u"
  shows "create_loop post tok rp n i (issue # rest) st =
         create_loop post tok rp n (Suc i) rest
           \<lparr>created_issues = created_issues st @ [json resp],
            failed_issues = failed_issues st,
            out = out st @ [Progress i n (title issue), Created u],
            network = \<lparr>trace = trace (network st) @ [mk_request tok rp issue],
                       remote = w'\<rparr>\<rparr>"
  using assms by (cases st) (simp add: create_github_issue_def requests_post_def)

lemma issue_json_html_url:
  "issue_json j \<Longrightarrow> \<exists>u. getitem j ''html_url'' = Inr u"
  by (auto simp: issue_json_def readable_def split: sum.splits)

lemma create_loop_run:
  assumes "\<forall>resp \<in> set (responses post (remote (network st)) (map (mk_request tok rp) issues)).
             status_code resp = 201 \<longrightarrow> issue_json (json resp)"
  shows "fst (create_loop post tok rp n i issues st) = None \<and>
         trace (network (snd (create_loop post tok rp n i issues st))) =
           trace (network st) @ map (mk_request tok rp) issues \<and>
         failed_issues (snd (create_loop post tok rp n i issues st)) =
           failed_issues st @
           map title (failures issues
             (responses post (remote (network st)) (map (mk_request tok rp) issues))) \<and>
         created_issues (snd (create_loop post tok rp n i issues st)) =
           created_issues st @
           map json (filter (\<lambda>resp. status_code resp = 201)
             (responses post (remote (network st)) (map (mk_request tok rp) issues))) \<and>
         set (out st) \<subseteq> set (out (snd (create_loop post tok rp n i issues st))) \<and>
         (\<forall>(issue, resp) \<in> set (zip issues
             (responses post (remote (network st)) (map (mk_request tok rp) issues))).
            status_code resp \<noteq> 201 \<longrightarrow>
              ErrCreating (title issue) (status_code resp)
                \<in> set (out (snd (create_loop post tok rp n i issues st))))"
  using assms
proof (induction issues arbitrary: st i)
  case Nil
  then show ?case by (simp add: failures_def)
next
  case (Cons issue rest)
  obtain resp w' where p: "post (remote (network st)) (mk_request tok rp issue) = (resp, w')"
    by (cases "post (remote (network st)) (mk_request tok rp issue)") auto
  have rs: "responses post (remote (network st)) (map (mk_request tok rp) (issue # rest)) =
            resp # responses post w' (map (mk_request tok rp) rest)"
    using p by simp
  note prems = Cons.prems [unfolded rs]
  show ?case
  proof (cases "status_code resp = 201")
    case True
    with prems have ij: "issue_json (json resp)" by simp
    then have tr: "truthy (json resp)" by (simp add: issue_json_def)
    from ij obtain u where u: "getitem (json resp) ''html_url'' = Inr u"
      using issue_json_html_url by blast
    let ?st = "\<lparr>created_issues = created_issues st @ [json resp],
            failed_issues = failed_issues st,
            out = out st @ [Progress i n (title issue), Created u],
            network = \<lparr>trace = trace (network st) @ [mk_request tok rp issue],
                       remote = w'\<rparr>\<rparr>"
    have step: "create_loop post tok rp n i (issue # rest) st =
                create_loop post tok rp n (Suc i) rest ?st"
      using p True tr u by (rule create_loop_step_created)
    have "\<forall>resp \<in> set (responses post (remote (network ?st)) (map (mk_request tok rp) rest)).
             status_code resp = 201 \<longrightarrow> issue_json (json resp)"
      using prems by simp
    from Cons.IH [OF this, of "Suc i"] True show ?thesis
      unfolding step rs by (simp add: failures_def)
  next
    case False
    let ?st = "\<lparr>created_issues = created_issues st,
            failed_issues = failed_issues st @ [title issue],
            out = out st @ [Progress i n (title issue),
                            ErrCreating (title issue) (status_code resp),
                            ResponseText (resp_text resp), FailedToCreate],
            network = \<lparr>trace = trace (network st) @ [mk_request tok rp issue],
                       remote = w'\<rparr>\<rparr>"
    have step: "create_loop post tok rp n i (issue # rest) st =
                create_loop post tok rp n (Suc i) rest ?st"
      using p False by (rule create_loop_step_failed)
    have "\<forall>resp \<in> set (responses post (remote (network ?st)) (map (mk_request tok rp) rest)).
             status_code resp = 201 \<longrightarrow> issue_json (json resp)"
      using prems by simp
    from Cons.IH [OF this, of "Suc i"] False show ?thesis
      unfolding step rs by (auto simp: failures_def)
  qed
qed

lemma created_lines_run:
  "\<forall>c \<in> set cs. issue_json c \<Longrightarrow>
   fst (created_lines cs acc) = None \<and> set acc \<subseteq> set (snd (created_lines cs acc))"
proof (induction cs arbitrary: acc)
  case Nil
  then show ?case by simp
next
  case (Cons c cs)
  from Cons.prems have "issue_json c" by simp
  then obtain n t u where g: "getitem c ''number'' = Inr n" "getitem c ''title'' = Inr t"
      "getitem c ''html_url'' = Inr u"
    by (auto simp: issue_json_def readable_def split: sum.splits)
  from Cons.prems have "\<forall>c \<in> set cs. issue_json c" by simp
  from Cons.IH [OF this, of "acc @ [CreatedItem n t, CreatedUrl u]"] g show ?case
    by auto
qed

lemma length_responses: "length (responses post w reqs) = length reqs"
  by (induction reqs arbitrary: w) (auto split: prod.splits)

lemma failures_empty_iff:
  "length rs = length issues \<Longrightarrow>
   failures issues rs = [] \<longleftrightarrow> (\<forall>resp \<in> set rs. status_code resp = 201)"
proof -
  assume len: "length rs = length issues"
  have "failures issues rs = [] \<longleftrightarrow> (\<forall>p \<in> set (zip issues rs). status_code (snd p) = 201)"
    by (auto simp: failures_def filter_empty_conv)
  also have "\<dots> \<longleftrightarrow> (\<forall>resp \<in> snd ` set (zip issues rs). status_code resp = 201)"
    by auto
  also have "snd ` set (zip issues rs) = set rs"
    using len by (metis map_snd_zip set_map)
  finally show ?thesis .
qed


lemma failures_set:
  "set (failures issues rs) = {issue. \<exists>resp. (issue, resp) \<in> set (zip issues rs) \<and> status_code resp \<noteq> 201}"
  by (force simp: failures_def)

text \<open>
  Claim C9. When the script runs for real (no preview, credential and
  repository given, the file read) on any list of records, and every 201
  response carries the issue that the script prints, then every record gets its
  one call, in the order of the file, whatever the earlier responses were; a
  record whose response is not 201 is logged with its title and status code and
  listed among the failed issues; and the script ends with a non-zero status
  exactly when some response was not 201, with status 0 otherwise.
\<close>

theorem create_issues_failures:
  assumes nd: "\<not> dry_run a" and tk: "given (token a)" and rp: "given (repo a)"
    and cont: "fs (file_arg a) = Content issues"
    and api: "\<forall>resp \<in> set (responses post w (map (mk_request (token a) (repo a)) issues)).
                status_code resp = 201 \<longrightarrow> issue_json (json resp)"
  shows "trace (net_after (main post w fs a)) = map (mk_request (token a) (repo a)) issues \<and>
         (\<forall>(issue, resp) \<in> set (zip issues
              (responses post w (map (mk_request (token a) (repo a)) issues))).
            status_code resp \<noteq> 201 \<longrightarrow>
              ErrCreating (title issue) (status_code resp) \<in> set (printed (main post w fs a)) \<and>
              FailedItem (title issue) \<in> set (printed (main post w fs a))) \<and>
         ended (main post w fs a) =
           (if \<exists>resp \<in> set (responses post w (map (mk_request (token a) (repo a)) issues)).
                 status_code resp \<noteq> 201
            then Exit 1 else Return) \<and>
         (exit_code (ended (main post w fs a)) \<noteq> 0 \<longleftrightarrow>
            (\<exists>resp \<in> set (responses post w (map (mk_request (token a) (repo a)) issues)).
               status_code resp \<noteq> 201))"
proof -
  let ?rs = "responses post w (map (mk_request (token a) (repo a)) issues)"
  let ?st0 = "\<lparr>created_issues = [], failed_issues = [],
               out = [LoadedIssues (length issues) (file_arg a)] @ [CreatingIn (fmt (repo a)), Rule],
               network = \<lparr>trace = [], remote = w\<rparr>\<rparr>"
  let ?loop = "create_loop post (token a) (repo a) (length issues) 1 issues ?st0"
  obtain st where loop: "?loop = (None, st)"
    and tr: "trace (network st) = map (mk_request (token a) (repo a)) issues"
    and fl: "failed_issues st = map title (failures issues ?rs)"
    and cr: "created_issues st = map json (filter (\<lambda>resp. status_code resp = 201) ?rs)"
    and er: "\<forall>(issue, resp) \<in> set (zip issues ?rs). status_code resp \<noteq> 201 \<longrightarrow>
               ErrCreating (title issue) (status_code resp) \<in> set (out st)"
  proof -
    have api0: "\<forall>resp \<in> set (responses post (remote (network ?st0))
                   (map (mk_request (token a) (repo a)) issues)).
                status_code resp = 201 \<longrightarrow> issue_json (json resp)"
      using api by simp
    note run = create_loop_run [OF api0, of "length issues" 1]
    show thesis
    proof (rule that [of "snd ?loop"])
      from run show "?loop = (None, snd ?loop)" by (simp add: prod_eq_iff)
      from run show "trace (network (snd ?loop)) = map (mk_request (token a) (repo a)) issues"
        by simp
      from run show "failed_issues (snd ?loop) = map title (failures issues ?rs)" by simp
      from run show "created_issues (snd ?loop) =
        map json (filter (\<lambda>resp. status_code resp = 201) ?rs)" by simp
      from run show "\<forall>(issue, resp) \<in> set (zip issues ?rs). status_code resp \<noteq> 201 \<longrightarrow>
               ErrCreating (title issue) (status_code resp) \<in> set (out (snd ?loop))" by simp
    qed
  qed
  let ?o2 = "out st @ [NlRule, SummaryHeader, TotalIssues (length issues),
                       SuccessfullyCreated (length (created_issues st)),
                       FailedCount (length (failed_issues st))]"
  let ?sum = "if created_issues st \<noteq> []
              then created_lines (created_issues st) (?o2 @ [CreatedHeader]) else (None, ?o2)"
  have all_ok: "\<forall>c \<in> set (created_issues st). issue_json c"
    using api cr by auto
  have sum: "fst ?sum = None" and sub: "set (out st) \<subseteq> set (snd ?sum)"
    using created_lines_run [OF all_ok, of "?o2 @ [CreatedHeader]"] by auto
  then obtain o3 where o3: "?sum = (None, o3)" and sub3: "set (out st) \<subseteq> set o3"
    by (cases ?sum) auto
  have m: "main post w fs a =
     (if failed_issues st \<noteq> []
      then \<lparr>printed = o3 @ [FailedHeader] @ map FailedItem (failed_issues st),
            ended = Exit 1, net_after = network st\<rparr>
      else \<lparr>printed = o3 @ [AllCreated], ended = Return, net_after = network st\<rparr>)"
    using nd tk rp cont loop o3
    by (simp add: main_def load_issues_data_def Let_def del: created_lines.simps create_loop.simps)
  have fe: "failed_issues st = [] \<longleftrightarrow> (\<forall>resp \<in> set ?rs. status_code resp = 201)"
    using failures_empty_iff [of ?rs issues] by (simp add: fl length_responses)
  have c1: "trace (net_after (main post w fs a)) = map (mk_request (token a) (repo a)) issues"
    by (simp add: m tr)
  have c2: "\<forall>(issue, resp) \<in> set (zip issues ?rs). status_code resp \<noteq> 201 \<longrightarrow>
              ErrCreating (title issue) (status_code resp) \<in> set (printed (main post w fs a)) \<and>
              FailedItem (title issue) \<in> set (printed (main post w fs a))"
  proof (clarify)
    fix issue resp
    assume z: "(issue, resp) \<in> set (zip issues ?rs)" and ne: "status_code resp \<noteq> 201"
    from er z ne have e: "ErrCreating (title issue) (status_code resp) \<in> set (out st)" by auto
    from z ne have "issue \<in> set (failures issues ?rs)" by (auto simp: failures_set)
    then have f: "title issue \<in> set (failed_issues st)" by (simp add: fl)
    then have "failed_issues st \<noteq> []" by auto
    with e f sub3 show "ErrCreating (title issue) (status_code resp) \<in> set (printed (main post w fs a)) \<and>
              FailedItem (title issue) \<in> set (printed (main post w fs a))"
      by (auto simp: m)
  qed
  have c3: "ended (main post w fs a) =
           (if \<exists>resp \<in> set ?rs. status_code resp \<noteq> 201 then Exit 1 else Return)"
    using fe by (auto simp: m)
  have c4: "exit_code (ended (main post w fs a)) \<noteq> 0 \<longleftrightarrow>
            (\<exists>resp \<in> set ?rs. status_code resp \<noteq> 201)"
    by (simp add: c3)
  from c1 c2 c3 c4 show ?thesis by blast
qed

text \<open>
  Claim C8, as the code has it. When the repository is absent, or the
  credential is absent and the preview is not asked for, the script prints one
  error line and exits with status 1 without any remote call. \<open>None\<close> and the
  empty string both count as absent.
\<close>

theorem main_requires_credentials:
  assumes "\<not> given (repo a) \<or> (\<not> dry_run a \<and> \<not> given (token a))"
  shows "ended (main post w fs a) = Exit 1 \<and>
         exit_code (ended (main post w fs a)) \<noteq> 0 \<and>
         trace (net_after (main post w fs a)) = [] \<and>
         (printed (main post w fs a) = [ErrTokenRequired] \<or>
          printed (main post w fs a) = [ErrRepoRequired])"
  using assms by (auto simp: main_def Let_def)

text \<open>In a preview the credential is never looked at: the run is the same
  whatever the token is.\<close>

lemma main_preview_ignores_token:
  "dry_run a \<Longrightarrow> main post w fs (a\<lparr>token := t\<rparr>) = main post w fs a"
  by (cases "load_issues_data fs (file_arg a)") (simp_all add: main_def Let_def)

text \<open>
  Claim C8, as it is stated, fails: in a preview (\<open>--dry-run\<close>) without a
  credential the script prints the planned issues and ends normally, with
  status 0 and no error line.
\<close>

theorem main_dry_run_without_token:
  "token \<lparr>token = None, repo = Some ''owner/repo'', dry_run = True,
          file_arg = ''issues_data.json''\<rparr> = None \<and>
   main (\<lambda>w req. (\<lparr>status_code = 201, resp_text = [], json = JNull\<rparr>, w)) ()
        (\<lambda>p. Content [\<lparr>title = ''t'', body = ''b'', labels = [''bug'', ''ui'']\<rparr>])
        \<lparr>token = None, repo = Some ''owner/repo'', dry_run = True,
         file_arg = ''issues_data.json''\<rparr> =
     \<lparr>printed = [LoadedIssues 1 ''issues_data.json'', DryRunHeader, Rule,
                 DryTitle 1 ''t'', DryLabels ''bug, ui'', DryBody ''b'',
                 NlRule, DryRunFooter],
      ended = Return, net_after = \<lparr>trace = [], remote = ()\<rparr>\<rparr> \<and>
   exit_code Return = 0"
  by (simp add: main_def load_issues_data_def)


theorem main_requires_credentials_witness:
  "\<not> given (token \<lparr>token = Some '''', repo = Some ''owner/repo'', dry_run = False, file_arg = ''issues_data.json''\<rparr>) \<and>
   \<not> dry_run \<lparr>token = Some '''', repo = Some ''owner/repo'', dry_run = False, file_arg = ''issues_data.json''\<rparr> \<and>
   ended (main (\<lambda>w req. (\<lparr>status_code = 201, resp_text = [], json = JNull\<rparr>, w)) () (\<lambda>p. Content []) \<lparr>token = Some '''', repo = Some ''owner/repo'', dry_run = False, file_arg = ''issues_data.json''\<rparr>) = Exit 1 \<and>
   trace (net_after (main (\<lambda>w req. (\<lparr>status_code = 201, resp_text = [], json = JNull\<rparr>, w)) () (\<lambda>p. Content []) \<lparr>token = Some '''', repo = Some ''owner/repo'', dry_run = False, file_arg = ''issues_data.json''\<rparr>)) = [] \<and>
   \<not> given (repo \<lparr>token = Some ''secret'', repo = None, dry_run = True, file_arg = ''issues_data.json''\<rparr>) \<and>
   ended (main (\<lambda>w req. (\<lparr>status_code = 201, resp_text = [], json = JNull\<rparr>, w)) () (\<lambda>p. Content []) \<lparr>token = Some ''secret'', repo = None, dry_run = True, file_arg = ''issues_data.json''\<rparr>) = Exit 1 \<and>
   trace (net_after (main (\<lambda>w req. (\<lparr>status_code = 201, resp_text = [], json = JNull\<rparr>, w)) () (\<lambda>p. Content []) \<lparr>token = Some ''secret'', repo = None, dry_run = True, file_arg = ''issues_data.json''\<rparr>)) = []"
proof -
  have h1: "\<not> given (repo \<lparr>token = Some '''', repo = Some ''owner/repo'', dry_run = False, file_arg = ''issues_data.json''\<rparr>) \<or>
            (\<not> dry_run \<lparr>token = Some '''', repo = Some ''owner/repo'', dry_run = False, file_arg = ''issues_data.json''\<rparr> \<and> \<not> given (token \<lparr>token = Some '''', repo = Some ''owner/repo'', dry_run = False, file_arg = ''issues_data.json''\<rparr>))"
    by simp
  have h2: "\<not> given (repo \<lparr>token = Some ''secret'', repo = None, dry_run = True, file_arg = ''issues_data.json''\<rparr>) \<or>
            (\<not> dry_run \<lparr>token = Some ''secret'', repo = None, dry_run = True, file_arg = ''issues_data.json''\<rparr> \<and> \<not> given (token \<lparr>token = Some ''secret'', repo = None, dry_run = True, file_arg = ''issues_data.json''\<rparr>))"
    by simp
  from main_requires_credentials [OF h1, of "(\<lambda>w req. (\<lparr>status_code = 201, resp_text = [], json = JNull\<rparr>, w))" "()" "(\<lambda>p. Content [])"]
    main_requires_credentials [OF h2, of "(\<lambda>w req. (\<lparr>status_code = 201, resp_text = [], json = JNull\<rparr>, w))" "()" "(\<lambda>p. Content [])"]
  show ?thesis by simp
qed

theorem create_issues_failures_witness:
  "length (trace (net_after (main (\<lambda>n req.
            (if n = (0::nat)
             then \<lparr>status_code = 201, resp_text = [],
                   json = JObj [(''html_url'', JStr ''u''), (''number'', JInt 7),
                                (''title'', JStr ''first'')]\<rparr>
             else \<lparr>status_code = 422, resp_text = ''no'', json = JNull\<rparr>, Suc n)) 0
        (\<lambda>p. Content [\<lparr>title = ''first'', body = ''b'', labels = []\<rparr>,
                         \<lparr>title = ''second'', body = ''b'', labels = []\<rparr>,
                         \<lparr>title = ''third'', body = ''b'', labels = []\<rparr>])
        \<lparr>token = Some ''secret'', repo = Some ''owner/repo'', dry_run = False, file_arg = ''issues_data.json''\<rparr>))) = 3 \<and>
   ended (main (\<lambda>n req.
            (if n = (0::nat)
             then \<lparr>status_code = 201, resp_text = [],
                   json = JObj [(''html_url'', JStr ''u''), (''number'', JInt 7),
                                (''title'', JStr ''first'')]\<rparr>
             else \<lparr>status_code = 422, resp_text = ''no'', json = JNull\<rparr>, Suc n)) 0
        (\<lambda>p. Content [\<lparr>title = ''first'', body = ''b'', labels = []\<rparr>,
                         \<lparr>title = ''second'', body = ''b'', labels = []\<rparr>,
                         \<lparr>title = ''third'', body = ''b'', labels = []\<rparr>])
        \<lparr>token = Some ''secret'', repo = Some ''owner/repo'', dry_run = False, file_arg = ''issues_data.json''\<rparr>) = Exit 1 \<and>
   ErrCreating ''second'' 422 \<in> set (printed (main (\<lambda>n req.
            (if n = (0::nat)
             then \<lparr>status_code = 201, resp_text = [],
                   json = JObj [(''html_url'', JStr ''u''), (''number'', JInt 7),
                                (''title'', JStr ''first'')]\<rparr>
             else \<lparr>status_code = 422, resp_text = ''no'', json = JNull\<rparr>, Suc n)) 0
        (\<lambda>p. Content [\<lparr>title = ''first'', body = ''b'', labels = []\<rparr>,
                         \<lparr>title = ''second'', body = ''b'', labels = []\<rparr>,
                         \<lparr>title = ''third'', body = ''b'', labels = []\<rparr>])
        \<lparr>token = Some ''secret'', repo = Some ''owner/repo'', dry_run = False, file_arg = ''issues_data.json''\<rparr>)) \<and>
   FailedItem ''third'' \<in> set (printed (main (\<lambda>n req.
            (if n = (0::nat)
             then \<lparr>status_code = 201, resp_text = [],
                   json = JObj [(''html_url'', JStr ''u''), (''number'', JInt 7),
                                (''title'', JStr ''first'')]\<rparr>
             else \<lparr>status_code = 422, resp_text = ''no'', json = JNull\<rparr>, Suc n)) 0
        (\<lambda>p. Content [\<lparr>title = ''first'', body = ''b'', labels = []\<rparr>,
                         \<lparr>title = ''second'', body = ''b'', labels = []\<rparr>,
                         \<lparr>title = ''third'', body = ''b'', labels = []\<rparr>])
        \<lparr>token = Some ''secret'', repo = Some ''owner/repo'', dry_run = False, file_arg = ''issues_data.json''\<rparr>)) \<and>
   ended (main (\<lambda>n req.
            (if n = (0::nat)
             then \<lparr>status_code = 201, resp_text = [],
                   json = JObj [(''html_url'', JStr ''u''), (''number'', JInt 7),
                                (''title'', JStr ''first'')]\<rparr>
             else \<lparr>status_code = 422, resp_text = ''no'', json = JNull\<rparr>, Suc n)) 0
        (\<lambda>p. Content [\<lparr>title = ''first'', body = ''b'', labels = []\<rparr>])
        \<lparr>token = Some ''secret'', repo = Some ''owner/repo'', dry_run = False, file_arg = ''issues_data.json''\<rparr>) = Return"
proof -
  let ?post = "(\<lambda>n req.
            (if n = (0::nat)
             then \<lparr>status_code = 201, resp_text = [],
                   json = JObj [(''html_url'', JStr ''u''), (''number'', JInt 7),
                                (''title'', JStr ''first'')]\<rparr>
             else \<lparr>status_code = 422, resp_text = ''no'', json = JNull\<rparr>, Suc n))"
  let ?a = "\<lparr>token = Some ''secret'', repo = Some ''owner/repo'', dry_run = False, file_arg = ''issues_data.json''\<rparr>"
  have nd: "\<not> dry_run ?a" and tk: "given (token ?a)" and rp: "given (repo ?a)"
    by simp_all
  have f1: "(\<lambda>p. Content [\<lparr>title = ''first'', body = ''b'', labels = []\<rparr>,
                         \<lparr>title = ''second'', body = ''b'', labels = []\<rparr>,
                         \<lparr>title = ''third'', body = ''b'', labels = []\<rparr>]) (file_arg ?a) = Content [\<lparr>title = ''first'', body = ''b'', labels = []\<rparr>,
                         \<lparr>title = ''second'', body = ''b'', labels = []\<rparr>,
                         \<lparr>title = ''third'', body = ''b'', labels = []\<rparr>]"
    by simp
  have f2: "(\<lambda>p. Content [\<lparr>title = ''first'', body = ''b'', labels = []\<rparr>]) (file_arg ?a) = Content [\<lparr>title = ''first'', body = ''b'', labels = []\<rparr>]"
    by simp
  have api1: "\<forall>resp \<in> set (responses ?post 0 (map (mk_request (token ?a) (repo ?a)) [\<lparr>title = ''first'', body = ''b'', labels = []\<rparr>,
                         \<lparr>title = ''second'', body = ''b'', labels = []\<rparr>,
                         \<lparr>title = ''third'', body = ''b'', labels = []\<rparr>])).
                status_code resp = 201 \<longrightarrow> issue_json (json resp)"
    by (simp add: issue_json_def readable_def)
  have api2: "\<forall>resp \<in> set (responses ?post 0 (map (mk_request (token ?a) (repo ?a)) [\<lparr>title = ''first'', body = ''b'', labels = []\<rparr>])).
                status_code resp = 201 \<longrightarrow> issue_json (json resp)"
    by (simp add: issue_json_def readable_def)
  note t1 = create_issues_failures [OF nd tk rp f1 api1]
  note t2 = create_issues_failures [OF nd tk rp f2 api2]
  from t1 have c1: "length (trace (net_after (main (\<lambda>n req.
            (if n = (0::nat)
             then \<lparr>status_code = 201, resp_text = [],
                   json = JObj [(''html_url'', JStr ''u''), (''number'', JInt 7),
                                (''title'', JStr ''first'')]\<rparr>
             else \<lparr>status_code = 422, resp_text = ''no'', json = JNull\<rparr>, Suc n)) 0
        (\<lambda>p. Content [\<lparr>title = ''first'', body = ''b'', labels = []\<rparr>,
                         \<lparr>title = ''second'', body = ''b'', labels = []\<rparr>,
                         \<lparr>title = ''third'', body = ''b'', labels = []\<rparr>])
        \<lparr>token = Some ''secret'', repo = Some ''owner/repo'', dry_run = False, file_arg = ''issues_data.json''\<rparr>))) = 3"
    by simp
  from t1 have c2: "ended (main (\<lambda>n req.
            (if n = (0::nat)
             then \<lparr>status_code = 201, resp_text = [],
                   json = JObj [(''html_url'', JStr ''u''), (''number'', JInt 7),
                                (''title'', JStr ''first'')]\<rparr>
             else \<lparr>status_code = 422, resp_text = ''no'', json = JNull\<rparr>, Suc n)) 0
        (\<lambda>p. Content [\<lparr>title = ''first'', body = ''b'', labels = []\<rparr>,
                         \<lparr>title = ''second'', body = ''b'', labels = []\<rparr>,
                         \<lparr>title = ''third'', body = ''b'', labels = []\<rparr>])
        \<lparr>token = Some ''secret'', repo = Some ''owner/repo'', dry_run = False, file_arg = ''issues_data.json''\<rparr>) = Exit 1"
    by simp
  from t1 have c3: "ErrCreating ''second'' 422 \<in> set (printed (main (\<lambda>n req.
            (if n = (0::nat)
             then \<lparr>status_code = 201, resp_text = [],
                   json = JObj [(''html_url'', JStr ''u''), (''number'', JInt 7),
                                (''title'', JStr ''first'')]\<rparr>
             else \<lparr>status_code = 422, resp_text = ''no'', json = JNull\<rparr>, Suc n)) 0
        (\<lambda>p. Content [\<lparr>title = ''first'', body = ''b'', labels = []\<rparr>,
                         \<lparr>title = ''second'', body = ''b'', labels = []\<rparr>,
                         \<lparr>title = ''third'', body = ''b'', labels = []\<rparr>])
        \<lparr>token = Some ''secret'', repo = Some ''owner/repo'', dry_run = False, file_arg = ''issues_data.json''\<rparr>)) \<and>
   FailedItem ''third'' \<in> set (printed (main (\<lambda>n req.
            (if n = (0::nat)
             then \<lparr>status_code = 201, resp_text = [],
                   json = JObj [(''html_url'', JStr ''u''), (''number'', JInt 7),
                                (''title'', JStr ''first'')]\<rparr>
             else \<lparr>status_code = 422, resp_text = ''no'', json = JNull\<rparr>, Suc n)) 0
        (\<lambda>p. Content [\<lparr>title = ''first'', body = ''b'', labels = []\<rparr>,
                         \<lparr>title = ''second'', body = ''b'', labels = []\<rparr>,
                         \<lparr>title = ''third'', body = ''b'', labels = []\<rparr>])
        \<lparr>token = Some ''secret'', repo = Some ''owner/repo'', dry_run = False, file_arg = ''issues_data.json''\<rparr>))"
    by simp
  from t2 have c4: "ended (main (\<lambda>n req.
            (if n = (0::nat)
             then \<lparr>status_code = 201, resp_text = [],
                   json = JObj [(''html_url'', JStr ''u''), (''number'', JInt 7),
                                (''title'', JStr ''first'')]\<rparr>
             else \<lparr>status_code = 422, resp_text = ''no'', json = JNull\<rparr>, Suc n)) 0
        (\<lambda>p. Content [\<lparr>title = ''first'', body = ''b'', labels = []\<rparr>])
        \<lparr>token = Some ''secret'', repo = Some ''owner/repo'', dry_run = False, file_arg = ''issues_data.json''\<rparr>) = Return"
    by simp
  from c1 c2 c3 c4 show ?thesis by blast
qed

end
